theory Spec2Isabelle
  imports Main "HOL-Library.Char_ord" "HOL-Library.List_Lexorder" "HOL-Library.Multiset"
begin

section \<open>Python values\<close>

text \<open>
  Session logs, model replies and the persisted snapshot are JSON documents. A JSON object
  is a Python \<^verbatim>\<open>dict\<close>, which keeps its insertion order: an association list whose first
  entry for a key is the one \<^verbatim>\<open>d[k]\<close> reads. Numbers are Python's unbounded integers (the
  code under study does no arithmetic on a JSON number).
\<close>

datatype json =
  JNull
  | JBool bool
  | JInt int
  | JStr string
  | JList "json list"
  | JDict "(string \<times> json) list"

text \<open>
  Exceptions are values. \<open>AttributeError\<close> and \<open>TypeError\<close> are the two the code under
  study can raise by itself (\<^verbatim>\<open>.get\<close> on a value that is not a dict; iterating or hashing a
  value that does not allow it; a wrong set of keyword arguments). \<open>ExternalError\<close> is any
  exception (a subclass of \<^verbatim>\<open>Exception\<close>) raised inside a collaborator, with its message.

  \<open>FieldTypeMismatch\<close> is not a Python exception. \<^verbatim>\<open>from_dict\<close> stores the values of its
  argument in the fields without checking them against the annotations; the records
  \<open>pattern\<close> and \<open>analysis_result\<close> have the annotated field types, and where a value is of
  another type the model of \<^verbatim>\<open>from_dict\<close> stops with this value instead. (It never does on
  the serialized form of such a record.)
\<close>

datatype error = AttributeError | TypeError | ExternalError string | FieldTypeMismatch

definition bindE :: "error + 'a \<Rightarrow> ('a \<Rightarrow> error + 'b) \<Rightarrow> error + 'b" where
  "bindE m f = (case m of Inl e \<Rightarrow> Inl e | Inr v \<Rightarrow> f v)"

text \<open>A comprehension or \<^verbatim>\<open>for\<close> loop that calls \<open>f\<close> on each element and stops at the first raise.\<close>

fun mapE :: "('a \<Rightarrow> error + 'b) \<Rightarrow> 'a list \<Rightarrow> error + 'b list" where
  "mapE f [] = Inr []"
| "mapE f (x # xs) = bindE (f x) (\<lambda>y. bindE (mapE f xs) (\<lambda>ys. Inr (y # ys)))"

text \<open>A \<^verbatim>\<open>for\<close> loop that threads a state through \<open>f\<close> and stops at the first raise.\<close>

fun foldE :: "('s \<Rightarrow> 'a \<Rightarrow> error + 's) \<Rightarrow> 'a list \<Rightarrow> 's \<Rightarrow> error + 's" where
  "foldE f [] s = Inr s"
| "foldE f (x # xs) s = bindE (f s x) (foldE f xs)"

text \<open>\<^verbatim>\<open>d.get(k, default)\<close> and \<^verbatim>\<open>k in d\<close> on a dict; \<^verbatim>\<open>d[k] = v\<close> keeps the position of a key
  that is already there and appends a new one.\<close>

definition dict_get :: "(string \<times> 'v) list \<Rightarrow> string \<Rightarrow> 'v \<Rightarrow> 'v" where
  "dict_get d k dflt = (case map_of d k of None \<Rightarrow> dflt | Some v \<Rightarrow> v)"

definition has_key :: "(string \<times> 'v) list \<Rightarrow> string \<Rightarrow> bool" where
  "has_key d k = (map_of d k \<noteq> None)"

fun dict_set :: "string \<Rightarrow> 'v \<Rightarrow> (string \<times> 'v) list \<Rightarrow> (string \<times> 'v) list" where
  "dict_set k v [] = [(k, v)]"
| "dict_set k v ((k', v') # kvs) = (if k' = k then (k, v) # kvs else (k', v') # dict_set k v kvs)"

text \<open>\<^verbatim>\<open>x.get(k, default)\<close> on any value: only a dict has the method.\<close>

definition get_attr :: "json \<Rightarrow> string \<Rightarrow> json \<Rightarrow> error + json" where
  "get_attr x k dflt = (case x of JDict d \<Rightarrow> Inr (dict_get d k dflt) | _ \<Rightarrow> Inl AttributeError)"

text \<open>\<^verbatim>\<open>for x in v\<close>: a list gives its elements, a dict its keys, a string its characters;
  \<^verbatim>\<open>None\<close>, a bool and a number are not iterable.\<close>

definition iterate :: "json \<Rightarrow> error + json list" where
  "iterate v = (case v of
       JList xs \<Rightarrow> Inr xs
     | JDict d \<Rightarrow> Inr (map (\<lambda>kv. JStr (fst kv)) d)
     | JStr s \<Rightarrow> Inr (map (\<lambda>c. JStr [c]) s)
     | _ \<Rightarrow> Inl TypeError)"

text \<open>Truth value of \<^verbatim>\<open>if v:\<close>.\<close>

definition truthy :: "json \<Rightarrow> bool" where
  "truthy v = (case v of
       JNull \<Rightarrow> False
     | JBool b \<Rightarrow> b
     | JInt n \<Rightarrow> n \<noteq> 0
     | JStr s \<Rightarrow> s \<noteq> []
     | JList xs \<Rightarrow> xs \<noteq> []
     | JDict d \<Rightarrow> d \<noteq> [])"

text \<open>Reading a value into a typed field.\<close>

definition as_str :: "json \<Rightarrow> error + string" where
  "as_str v = (case v of JStr s \<Rightarrow> Inr s | _ \<Rightarrow> Inl FieldTypeMismatch)"

definition as_str_list :: "json \<Rightarrow> error + string list" where
  "as_str_list v = (case v of JList xs \<Rightarrow> mapE as_str xs | _ \<Rightarrow> Inl FieldTypeMismatch)"

definition as_int :: "json \<Rightarrow> error + int" where
  "as_int v = (case v of JInt n \<Rightarrow> Inr n | _ \<Rightarrow> Inl FieldTypeMismatch)"

definition as_approved :: "json \<Rightarrow> error + bool option" where
  "as_approved v = (case v of JNull \<Rightarrow> Inr None | JBool b \<Rightarrow> Inr (Some b) | _ \<Rightarrow> Inl FieldTypeMismatch)"

definition as_str_dict :: "json \<Rightarrow> error + (string \<times> string) list" where
  "as_str_dict v = (case v of
       JDict d \<Rightarrow> mapE (\<lambda>kv. bindE (as_str (snd kv)) (\<lambda>s. Inr (fst kv, s))) d
     | _ \<Rightarrow> Inl FieldTypeMismatch)"

section \<open>Text\<close>

text \<open>
  A Python \<^verbatim>\<open>str\<close> is a \<open>string\<close> whose \<open>char\<close>s are code points below 256, so \<open>length\<close> is
  \<^verbatim>\<open>len\<close>. \<open>is_space\<close> is \<^verbatim>\<open>str.isspace\<close> on one character, which is also the class
  \<^verbatim>\<open>\s\<close> of a \<^verbatim>\<open>str\<close> pattern: tab to carriage return, the separators 0x1C to 0x1F, the
  space, NEL and the no-break space. \<open>is_word\<close> is the class \<^verbatim>\<open>\w\<close>: the alphanumeric
  characters and the underscore.
\<close>

definition is_space :: "char \<Rightarrow> bool" where
  "is_space c = (c \<in> set [CHR 0x09, CHR 0x0A, CHR 0x0B, CHR 0x0C, CHR 0x0D,
                           CHR 0x1C, CHR 0x1D, CHR 0x1E, CHR 0x1F, CHR 0x20, CHR 0x85, CHR 0xA0])"

definition in_range :: "nat \<Rightarrow> nat \<Rightarrow> char \<Rightarrow> bool" where
  "in_range lo hi c = (lo \<le> of_char c \<and> (of_char c :: nat) \<le> hi)"

definition ascii_uppercase :: string where
  "ascii_uppercase = ''ABCDEFGHIJKLMNOPQRSTUVWXYZ''"

definition ascii_lowercase :: string where
  "ascii_lowercase = ''abcdefghijklmnopqrstuvwxyz''"

definition is_upper :: "char \<Rightarrow> bool" where
  "is_upper c = (c \<in> set ascii_uppercase)"

definition is_lower :: "char \<Rightarrow> bool" where
  "is_lower c = (c \<in> set ascii_lowercase)"

definition is_word :: "char \<Rightarrow> bool" where
  "is_word c = (is_upper c \<or> is_lower c \<or> c \<in> set ''0123456789'' \<or> c = CHR ''_''
      \<or> c \<in> set [CHR 0xAA, CHR 0xB2, CHR 0xB3, CHR 0xB5, CHR 0xB9, CHR 0xBA, CHR 0xBC, CHR 0xBD, CHR 0xBE]
      \<or> in_range 0xC0 0xD6 c \<or> in_range 0xD8 0xF6 c \<or> in_range 0xF8 0xFF c)"

text \<open>Case mapping of the letters A to Z; every other character is left as it is.\<close>

definition lower_ch :: "char \<Rightarrow> char" where
  "lower_ch c = (case map_of (zip ascii_uppercase ascii_lowercase) c of Some l \<Rightarrow> l | None \<Rightarrow> c)"

definition upper_ch :: "char \<Rightarrow> char" where
  "upper_ch c = (case map_of (zip ascii_lowercase ascii_uppercase) c of Some u \<Rightarrow> u | None \<Rightarrow> c)"

text \<open>\<^verbatim>\<open>s.strip()\<close> and \<^verbatim>\<open>s.startswith(p)\<close>.\<close>

definition strip :: "string \<Rightarrow> string" where
  "strip s = rev (dropWhile is_space (rev (dropWhile is_space s)))"

definition startswith :: "string \<Rightarrow> string \<Rightarrow> bool" where
  "startswith s p = (take (length p) s = p)"

text \<open>
  \<^verbatim>\<open>s.replace("_", " ")\<close> and \<^verbatim>\<open>s.title()\<close>. \<^verbatim>\<open>str.title\<close> maps case by the Unicode tables: a
  cased character that follows a cased character is lowered, any other is raised to title
  case. Its result can leave the characters of the text model (\<^verbatim>\<open>U+00FF\<close> is raised to
  \<^verbatim>\<open>U+0178\<close>), so the renderers take it as a parameter \<open>title\<close>. \<open>ascii_title\<close> is what
  it computes on ASCII text.
\<close>

definition replace_underscores :: "string \<Rightarrow> string" where
  "replace_underscores s = map (\<lambda>c. if c = CHR ''_'' then CHR '' '' else c) s"

fun title_from :: "bool \<Rightarrow> string \<Rightarrow> string" where
  "title_from previous_is_cased [] = []"
| "title_from previous_is_cased (c # cs) =
     (if is_upper c \<or> is_lower c
      then (if previous_is_cased then lower_ch c else upper_ch c) # title_from True cs
      else c # title_from False cs)"

definition ascii_title :: "string \<Rightarrow> string" where
  "ascii_title s = title_from False s"

text \<open>\<^verbatim>\<open>str(n)\<close> of an integer, and \<^verbatim>\<open>sep.join(lines)\<close>.\<close>

fun str_nat :: "nat \<Rightarrow> string" where
  "str_nat n = (if n < 10 then [''0123456789'' ! n]
                else str_nat (n div 10) @ [''0123456789'' ! (n mod 10)])"

declare str_nat.simps [simp del]

definition str_int :: "int \<Rightarrow> string" where
  "str_int i = (if i < 0 then CHR ''-'' # str_nat (nat (- i)) else str_nat (nat i))"

fun join :: "string \<Rightarrow> string list \<Rightarrow> string" where
  "join sep [] = []"
| "join sep [l] = l"
| "join sep (l # ls) = l @ sep @ join sep ls"

section \<open>Prompt Classifier (extract_prompts.py)\<close>

text \<open>
  The regular expressions of \<^verbatim>\<open>CORRECTION_PATTERNS\<close> and \<^verbatim>\<open>INSTRUCTION_PATTERNS\<close> use
  literal text, one-character classes (\<^verbatim>\<open>[,\s]\<close>, \<^verbatim>\<open>\s\<close>), their repetition (\<^verbatim>\<open>\s+\<close>,
  \<^verbatim>\<open>\w+\<close>), alternation, an optional part (\<^verbatim>\<open>t?\<close>) and concatenation. All are compiled
  with \<^verbatim>\<open>re.IGNORECASE\<close>: a literal matches a text regardless of the case of its letters.
\<close>

datatype rx =
  Lit string
  | Cls "char \<Rightarrow> bool"
  | Plus "char \<Rightarrow> bool"
  | Alt rx rx
  | Opt rx
  | Cat rx rx

text \<open>\<open>rx_match r s\<close> lists what is left of \<open>s\<close> after each way \<open>r\<close> matches at its start.\<close>

fun rx_match :: "rx \<Rightarrow> string \<Rightarrow> string list" where
  "rx_match (Lit l) s =
     (if map lower_ch (take (length l) s) = map lower_ch l then [drop (length l) s] else [])"
| "rx_match (Cls P) s = (case s of [] \<Rightarrow> [] | c # cs \<Rightarrow> if P c then [cs] else [])"
| "rx_match (Plus P) s = map (\<lambda>k. drop k s) [1 ..< Suc (length (takeWhile P s))]"
| "rx_match (Alt a b) s = rx_match a s @ rx_match b s"
| "rx_match (Opt a) s = rx_match a s @ [s]"
| "rx_match (Cat a b) s = concat (map (rx_match b) (rx_match a s))"

text \<open>
  A compiled pattern: whether it begins with \<^verbatim>\<open>^\<close> (no pattern is compiled with
  \<^verbatim>\<open>re.MULTILINE\<close>, so \<^verbatim>\<open>^\<close> is the start of the text), and the expression after it.
  \<open>search\<close> is the truth value of \<^verbatim>\<open>pattern.search(text)\<close>: a match at the start for an
  anchored pattern, at some position otherwise.
\<close>

type_synonym regex = "bool \<times> rx"

fun match_somewhere :: "rx \<Rightarrow> string \<Rightarrow> bool" where
  "match_somewhere r [] = (rx_match r [] \<noteq> [])"
| "match_somewhere r (c # cs) = (rx_match r (c # cs) \<noteq> [] \<or> match_somewhere r cs)"

definition search :: "regex \<Rightarrow> string \<Rightarrow> bool" where
  "search pattern text' =
     (if fst pattern then rx_match (snd pattern) text' \<noteq> [] else match_somewhere (snd pattern) text')"

definition comma_or_space :: "char \<Rightarrow> bool" where
  "comma_or_space c = (c = CHR '','' \<or> is_space c)"

definition CORRECTION_PATTERNS :: "regex list" where
  "CORRECTION_PATTERNS =
    [(True, Cat (Lit ''no'') (Cls comma_or_space)),
     (True, Cat (Lit ''actually'') (Cls comma_or_space)),
     (True, Cat (Lit ''wait'') (Cls comma_or_space)),
     (True, Cat (Lit ''sorry'') (Cls comma_or_space)),
     (False, Cat (Lit ''change '') (Cat (Alt (Lit ''this'') (Alt (Lit ''that'') (Lit ''it''))) (Lit '' to''))),
     (False, Cat (Lit ''instead'') (Cls comma_or_space)),
     (True, Cat (Lit ''no'') (Cat (Opt (Lit ''t'')) (Lit '' like that''))),
     (False, Lit ''i meant''),
     (False, Cat (Lit ''that's not '') (Alt (Lit ''right'') (Alt (Lit ''correct'') (Lit ''what i'')))),
     (True, Lit ''undo''),
     (True, Lit ''revert''),
     (False, Lit ''go back to'')]"

definition INSTRUCTION_PATTERNS :: "regex list" where
  "INSTRUCTION_PATTERNS =
    [(False, Cat (Lit ''always'') (Cls is_space)),
     (False, Cat (Lit ''never'') (Cls is_space)),
     (False, Cat (Lit ''make sure '') (Alt (Lit ''to'') (Lit ''you''))),
     (False, Lit ''don't forget''),
     (False, Lit ''remember to''),
     (False, Cat (Lit ''prefer'') (Cls is_space)),
     (False, Cat (Lit ''use'') (Cat (Plus is_space) (Cat (Plus is_word) (Cat (Plus is_space)
               (Lit ''instead of''))))),
     (False, Cat (Lit ''i '') (Alt (Lit ''like'') (Alt (Lit ''want'') (Lit ''prefer'')))),
     (False, Cat (Alt (Lit ''should'') (Lit ''must'')) (Cat (Lit '' '')
               (Alt (Lit ''be'') (Alt (Lit ''have'') (Lit ''use'')))))]"

text \<open>
  \<^verbatim>\<open>classify_prompt\<close>. \<open>classify_with\<close> is its body over any two rule lists: the early
  return for an empty text, then the two \<^verbatim>\<open>for\<close> loops, each returning at the first pattern
  that is found.
\<close>

definition classify_with :: "regex list \<Rightarrow> regex list \<Rightarrow> string \<Rightarrow> string" where
  "classify_with correction_patterns instruction_patterns text' =
     (if text' = [] then ''general''
      else if list_ex (\<lambda>pattern. search pattern text') correction_patterns then ''correction''
      else if list_ex (\<lambda>pattern. search pattern text') instruction_patterns then ''instruction''
      else ''general'')"

definition classify_prompt :: "string \<Rightarrow> string" where
  "classify_prompt text' = classify_with CORRECTION_PATTERNS INSTRUCTION_PATTERNS text'"

section \<open>Prompt Extractor and Corpus Collector (extract_prompts.py)\<close>

text \<open>
  The collaborators imported from the package: \<^verbatim>\<open>parse_session_file\<close> (reads and parses a
  session file, or raises), \<^verbatim>\<open>extract_text_from_content\<close> (the plain text of a message
  content, or raises) and \<^verbatim>\<open>find_all_sessions\<close> (the directory walk). Their code is not
  part of the files under study; they are parameters. A \<^verbatim>\<open>pathlib.Path\<close> is given by the
  two views the code reads, \<^verbatim>\<open>str(path)\<close> and \<^verbatim>\<open>path.stem\<close>; the modification time is of
  any type \<open>'m\<close>.
\<close>

record path =
  path_str :: string
  stem :: string

record 'm session =
  path :: path
  mtime :: 'm

record 'm project =
  name :: string
  sessions :: "'m session list"

record 'm collaborators =
  parse_session_file :: "path \<Rightarrow> error + json"
  extract_text_from_content :: "json \<Rightarrow> error + string"
  find_all_sessions :: "string \<Rightarrow> bool \<Rightarrow> 'm project list"

text \<open>The prompt dict, with keys \<^verbatim>\<open>text\<close>, \<^verbatim>\<open>type\<close> and \<^verbatim>\<open>timestamp\<close>.\<close>

record prompt =
  prompt_text :: string
  prompt_type :: string
  prompt_timestamp :: json

text \<open>
  \<^verbatim>\<open>all(isinstance(b, dict) and b.get("type") == "tool_result" for b in content)\<close>, for a
  content that is a list.
\<close>

definition is_tool_result :: "json list \<Rightarrow> bool" where
  "is_tool_result content =
     list_all (\<lambda>b. case b of JDict d \<Rightarrow> dict_get d ''type'' JNull = JStr ''tool_result'' | _ \<Rightarrow> False)
       content"

text \<open>
  The body of the loop over \<^verbatim>\<open>loglines\<close> for one entry: \<open>Inl\<close> when it raises, \<open>Inr None\<close>
  when it reaches a \<^verbatim>\<open>continue\<close>, \<open>Inr (Some p)\<close> when it appends \<open>p\<close>.
\<close>

definition process_entry :: "'m collaborators \<Rightarrow> json \<Rightarrow> error + prompt option" where
  "process_entry env entry =
     bindE (get_attr entry ''type'' JNull) (\<lambda>ty.
     if ty \<noteq> JStr ''user'' then Inr None
     else
       bindE (get_attr entry ''message'' (JDict [])) (\<lambda>message.
       bindE (get_attr message ''content'' (JStr [])) (\<lambda>content.
       if (case content of JList bs \<Rightarrow> is_tool_result bs | _ \<Rightarrow> False) then Inr None
       else
         bindE (extract_text_from_content env content) (\<lambda>text'.
         if text' = [] \<or> length text' < 5 then Inr None
         else if startswith (strip text') ''<'' then Inr None
         else
           bindE (get_attr entry ''timestamp'' (JStr [])) (\<lambda>timestamp.
           Inr (Some \<lparr>prompt_text = text', prompt_type = classify_prompt text',
                      prompt_timestamp = timestamp\<rparr>))))))"

text \<open>
  The \<^verbatim>\<open>for\<close> loop inside the \<^verbatim>\<open>try\<close> block, on the list \<^verbatim>\<open>prompts\<close> built so far: the list
  when the loop is left, and the exception that left it, if any.
\<close>

fun process_loglines :: "'m collaborators \<Rightarrow> json list \<Rightarrow> prompt list \<Rightarrow> prompt list \<times> error option" where
  "process_loglines env [] prompts = (prompts, None)"
| "process_loglines env (entry # rest) prompts =
     (case process_entry env entry of
        Inl e \<Rightarrow> (prompts, Some e)
      | Inr None \<Rightarrow> process_loglines env rest prompts
      | Inr (Some p) \<Rightarrow> process_loglines env rest (prompts @ [p]))"

text \<open>
  The \<^verbatim>\<open>try\<close> block of \<^verbatim>\<open>extract_user_prompts\<close>: the value of \<^verbatim>\<open>prompts\<close> when the block is
  left, and the exception raised in it, if any. \<^verbatim>\<open>prompts = []\<close> is assigned before the
  block; the handler \<^verbatim>\<open>except Exception: pass\<close> swallows the exception, and the function
  returns \<^verbatim>\<open>prompts\<close>.
\<close>

definition try_block :: "'m collaborators \<Rightarrow> path \<Rightarrow> prompt list \<times> error option" where
  "try_block env session_path =
     (case parse_session_file env session_path of
        Inl e \<Rightarrow> ([], Some e)
      | Inr data \<Rightarrow>
          (case bindE (get_attr data ''loglines'' (JList [])) iterate of
             Inl e \<Rightarrow> ([], Some e)
           | Inr loglines \<Rightarrow> process_loglines env loglines []))"

definition extract_user_prompts :: "'m collaborators \<Rightarrow> path \<Rightarrow> prompt list" where
  "extract_user_prompts env session_path = fst (try_block env session_path)"

text \<open>
  \<^verbatim>\<open>extract_all_prompts\<close> is a generator; the model lists what it yields. \<open>limit_reached\<close> is
  the test \<^verbatim>\<open>limit and session_count >= limit\<close>. The inner loop returns what it yields, the
  counter, and whether it executed \<^verbatim>\<open>return\<close>, which ends the generator.
\<close>

record 'm session_bundle =
  session_id :: string
  project_name :: string
  session_path :: string
  bundle_mtime :: 'm
  prompts :: "prompt list"

definition limit_reached :: "int option \<Rightarrow> nat \<Rightarrow> bool" where
  "limit_reached limit session_count =
     (case limit of None \<Rightarrow> False | Some l \<Rightarrow> l \<noteq> 0 \<and> int session_count \<ge> l)"

definition session_dict :: "'m collaborators \<Rightarrow> string \<Rightarrow> 'm session \<Rightarrow> 'm session_bundle" where
  "session_dict env pname s =
     \<lparr>session_id = stem (path s), project_name = pname, session_path = path_str (path s),
      bundle_mtime = mtime s, prompts = extract_user_prompts env (path s)\<rparr>"

fun sessions_loop ::
  "'m collaborators \<Rightarrow> int option \<Rightarrow> string \<Rightarrow> 'm session list \<Rightarrow> nat
     \<Rightarrow> 'm session_bundle list \<times> nat \<times> bool" where
  "sessions_loop env limit pname [] session_count = ([], session_count, False)"
| "sessions_loop env limit pname (s # ss) session_count =
     (if limit_reached limit session_count then ([], session_count, True)
      else if extract_user_prompts env (path s) = [] then sessions_loop env limit pname ss session_count
      else (case sessions_loop env limit pname ss (Suc session_count) of
              (ys, n, returned) \<Rightarrow> (session_dict env pname s # ys, n, returned)))"

fun projects_loop ::
  "'m collaborators \<Rightarrow> int option \<Rightarrow> 'm project list \<Rightarrow> nat \<Rightarrow> 'm session_bundle list" where
  "projects_loop env limit [] session_count = []"
| "projects_loop env limit (p # ps) session_count =
     (case sessions_loop env limit (name p) (sessions p) session_count of
        (ys, n, returned) \<Rightarrow> if returned then ys else ys @ projects_loop env limit ps n)"

definition extract_all_prompts ::
  "'m collaborators \<Rightarrow> string \<Rightarrow> int option \<Rightarrow> bool \<Rightarrow> 'm session_bundle list" where
  "extract_all_prompts env projects_folder limit include_agents =
     projects_loop env limit (find_all_sessions env projects_folder include_agents) 0"

section \<open>Data model (pattern_analyzer.py)\<close>

text \<open>
  The dataclasses \<^verbatim>\<open>Pattern\<close> and \<^verbatim>\<open>AnalysisResult\<close>, with the field types of their
  annotations. \<^verbatim>\<open>approved: Optional[bool]\<close> is the tri-state: \<open>None\<close> is "not reviewed".
  A Python \<^verbatim>\<open>dict[str, str]\<close> keeps its insertion order, so \<^verbatim>\<open>custom_categories\<close> is an
  association list. A \<open>char\<close> of a \<open>string\<close> stands for one code point below 256.
\<close>

record pattern =
  summary :: string
  examples :: "string list"
  confidence :: string
  category :: string
  approved :: "bool option"

record analysis_result =
  patterns :: "pattern list"
  custom_categories :: "(string \<times> string) list"
  total_prompts_analyzed :: int
  sessions_analyzed :: int

text \<open>
  \<^verbatim>\<open>PREDEFINED_CATEGORIES\<close>, in its declared order.
\<close>

definition PREDEFINED_CATEGORIES :: "(string \<times> string) list" where
  "PREDEFINED_CATEGORIES =
    [(''coding_style'', ''Naming conventions, formatting, code style preferences''),
     (''architecture'', ''File structure, design patterns, project organization''),
     (''testing'', ''Testing approaches, coverage expectations, test patterns''),
     (''documentation'', ''Comments, README, JSDoc, docstrings preferences''),
     (''workflow'', ''Git practices, PR conventions, commit style''),
     (''tools'', ''Preferred libraries, frameworks, dependencies''),
     (''communication'', ''How you prefer Claude to respond, verbosity, explanations''),
     (''error_handling'', ''Exception handling, validation, error messages''),
     (''performance'', ''Optimization preferences, caching, efficiency''),
     (''ui_ux'', ''User interface patterns, design choices, accessibility'')]"

subsection \<open>Serialization\<close>

text \<open>
  \<^verbatim>\<open>Pattern.to_dict\<close> is \<^verbatim>\<open>asdict(self)\<close>: the fields in declaration order.
  \<^verbatim>\<open>Pattern.from_dict\<close> is \<^verbatim>\<open>cls(**data)\<close>: a \<^verbatim>\<open>TypeError\<close> when \<open>data\<close> is not a mapping, has
  a key that is not a field, or lacks one of the four fields without a default;
  \<^verbatim>\<open>approved\<close> defaults to \<^verbatim>\<open>None\<close>.
\<close>

definition to_dict_pattern :: "pattern \<Rightarrow> json" where
  "to_dict_pattern p = JDict
     [(''summary'', JStr (summary p)),
      (''examples'', JList (map JStr (examples p))),
      (''confidence'', JStr (confidence p)),
      (''category'', JStr (category p)),
      (''approved'', (case approved p of None \<Rightarrow> JNull | Some b \<Rightarrow> JBool b))]"

definition pattern_fields :: "string list" where
  "pattern_fields = [''summary'', ''examples'', ''confidence'', ''category'', ''approved'']"

definition pattern_required :: "string list" where
  "pattern_required = [''summary'', ''examples'', ''confidence'', ''category'']"

definition from_dict_pattern :: "json \<Rightarrow> error + pattern" where
  "from_dict_pattern data = (case data of
       JDict d \<Rightarrow>
         if list_ex (\<lambda>kv. fst kv \<notin> set pattern_fields) d then Inl TypeError
         else if list_ex (\<lambda>k. \<not> has_key d k) pattern_required then Inl TypeError
         else
           bindE (as_str (dict_get d ''summary'' JNull)) (\<lambda>s.
           bindE (as_str_list (dict_get d ''examples'' JNull)) (\<lambda>ex.
           bindE (as_str (dict_get d ''confidence'' JNull)) (\<lambda>conf.
           bindE (as_str (dict_get d ''category'' JNull)) (\<lambda>cat.
           bindE (as_approved (dict_get d ''approved'' JNull)) (\<lambda>ap.
           Inr \<lparr>summary = s, examples = ex, confidence = conf, category = cat, approved = ap\<rparr>)))))
     | _ \<Rightarrow> Inl TypeError)"

text \<open>\<^verbatim>\<open>AnalysisResult.to_dict\<close> and \<^verbatim>\<open>AnalysisResult.from_dict\<close>.\<close>

definition to_dict :: "analysis_result \<Rightarrow> json" where
  "to_dict r = JDict
     [(''patterns'', JList (map to_dict_pattern (patterns r))),
      (''custom_categories'', JDict (map (\<lambda>kv. (fst kv, JStr (snd kv))) (custom_categories r))),
      (''total_prompts_analyzed'', JInt (total_prompts_analyzed r)),
      (''sessions_analyzed'', JInt (sessions_analyzed r))]"

definition from_dict :: "json \<Rightarrow> error + analysis_result" where
  "from_dict data =
     bindE (get_attr data ''patterns'' (JList [])) (\<lambda>raw.
     bindE (iterate raw) (\<lambda>ps.
     bindE (mapE from_dict_pattern ps) (\<lambda>pats.
     bindE (get_attr data ''custom_categories'' (JDict [])) (\<lambda>cc.
     bindE (get_attr data ''total_prompts_analyzed'' (JInt 0)) (\<lambda>tot.
     bindE (get_attr data ''sessions_analyzed'' (JInt 0)) (\<lambda>ses.
     bindE (as_str_dict cc) (\<lambda>cc'.
     bindE (as_int tot) (\<lambda>tot'.
     bindE (as_int ses) (\<lambda>ses'.
     Inr \<lparr>patterns = pats, custom_categories = cc',
          total_prompts_analyzed = tot', sessions_analyzed = ses'\<rparr>)))))))))"

section \<open>Result Merger (pattern_analyzer.py)\<close>

text \<open>
  Python stores a value in a dataclass field without checking it against the annotation,
  and \<^verbatim>\<open>merge_pattern_results\<close> stores what the model replied: a \<^verbatim>\<open>Pattern\<close> built by the
  merger holds a JSON value of any type in each field, and the result's
  \<^verbatim>\<open>custom_categories\<close> maps any hashable JSON value to any JSON value. \<open>py_pattern\<close> and
  \<open>py_result\<close> are these objects as Python holds them. \<open>typed_pattern\<close> and
  \<open>typed_result\<close> read them as the records \<open>pattern\<close> and \<open>analysis_result\<close>, when every
  field has the type of its annotation.
\<close>

record py_pattern =
  py_summary :: json
  py_examples :: json
  py_confidence :: json
  py_category :: json
  py_approved :: json

record py_result =
  py_patterns :: "py_pattern list"
  py_custom_categories :: "(json \<times> json) list"
  py_total_prompts_analyzed :: int
  py_sessions_analyzed :: int

definition option_of :: "error + 'a \<Rightarrow> 'a option" where
  "option_of m = (case m of Inl _ \<Rightarrow> None | Inr v \<Rightarrow> Some v)"

definition typed_pattern :: "py_pattern \<Rightarrow> pattern option" where
  "typed_pattern p =
     (case (option_of (as_str (py_summary p)), option_of (as_str_list (py_examples p)),
            option_of (as_str (py_confidence p)), option_of (as_str (py_category p)),
            option_of (as_approved (py_approved p))) of
        (Some s, Some ex, Some conf, Some cat, Some ap) \<Rightarrow>
          Some \<lparr>summary = s, examples = ex, confidence = conf, category = cat, approved = ap\<rparr>
      | _ \<Rightarrow> None)"

definition typed_result :: "py_result \<Rightarrow> analysis_result option" where
  "typed_result r =
     (case (those (map typed_pattern (py_patterns r)),
            those (map (\<lambda>kv. case (fst kv, snd kv) of (JStr k, JStr v) \<Rightarrow> Some (k, v) | _ \<Rightarrow> None)
                     (py_custom_categories r))) of
        (Some ps, Some cc) \<Rightarrow>
          Some \<lparr>patterns = ps, custom_categories = cc,
                total_prompts_analyzed = py_total_prompts_analyzed r,
                sessions_analyzed = py_sessions_analyzed r\<rparr>
      | _ \<Rightarrow> None)"

text \<open>
  Keys of a dict are compared by \<^verbatim>\<open>==\<close> and hashed: \<^verbatim>\<open>True\<close> and \<^verbatim>\<open>1\<close> are one key, and so
  are \<^verbatim>\<open>False\<close> and \<^verbatim>\<open>0\<close>; a list or a dict cannot be a key. \<^verbatim>\<open>d[k] = v\<close> on an equal key
  keeps the key that is there and replaces its value.
\<close>

definition key_norm :: "json \<Rightarrow> json" where
  "key_norm k = (case k of JBool b \<Rightarrow> JInt (if b then 1 else 0) | _ \<Rightarrow> k)"

definition unhashable :: "json \<Rightarrow> bool" where
  "unhashable k = (case k of JList _ \<Rightarrow> True | JDict _ \<Rightarrow> True | _ \<Rightarrow> False)"

fun py_dict_set :: "json \<Rightarrow> 'v \<Rightarrow> (json \<times> 'v) list \<Rightarrow> (json \<times> 'v) list" where
  "py_dict_set k v [] = [(k, v)]"
| "py_dict_set k v ((k', v') # kvs) =
     (if key_norm k' = key_norm k then (k', v) # kvs else (k', v') # py_dict_set k v kvs)"

text \<open>
  The body of the inner loop over \<^verbatim>\<open>result.get("patterns", [])\<close>: one \<^verbatim>\<open>Pattern\<close> per pattern
  object \<open>p\<close>, with the defaults of the four \<^verbatim>\<open>p.get\<close> calls and \<^verbatim>\<open>approved\<close> left at its
  default \<^verbatim>\<open>None\<close>. \<^verbatim>\<open>p.get\<close> raises when \<open>p\<close> is not a dict.
\<close>

definition make_pattern :: "json \<Rightarrow> error + py_pattern" where
  "make_pattern p =
     bindE (get_attr p ''summary'' (JStr [])) (\<lambda>s.
     bindE (get_attr p ''examples'' (JList [])) (\<lambda>ex.
     bindE (get_attr p ''confidence'' (JStr ''low'')) (\<lambda>conf.
     bindE (get_attr p ''category'' (JStr ''general'')) (\<lambda>cat.
     Inr \<lparr>py_summary = s, py_examples = ex, py_confidence = conf, py_category = cat,
          py_approved = JNull\<rparr>))))"

text \<open>
  The body of the loop over \<^verbatim>\<open>result.get("custom_categories", [])\<close>. An entry that is not a
  dict is passed over, and so is one whose name is false (\<^verbatim>\<open>if name:\<close>);
  \<^verbatim>\<open>all_custom_categories[name] = desc\<close> raises \<^verbatim>\<open>TypeError\<close> for a name that is a list or a
  dict, and stores any other name with any description.
\<close>

definition add_custom_category ::
  "(json \<times> json) list \<Rightarrow> json \<Rightarrow> error + (json \<times> json) list" where
  "add_custom_category all_custom_categories cat = (case cat of
       JDict d \<Rightarrow>
         (let name = dict_get d ''name'' (JStr []);
              desc = dict_get d ''description'' (JStr [])
          in if truthy name then
               (if unhashable name then Inl TypeError
                else Inr (py_dict_set name desc all_custom_categories))
             else Inr all_custom_categories)
     | _ \<Rightarrow> Inr all_custom_categories)"

text \<open>One turn of the loop over \<^verbatim>\<open>results\<close>, on the pair of accumulators
  (\<^verbatim>\<open>all_patterns\<close>, \<^verbatim>\<open>all_custom_categories\<close>).\<close>

definition merge_step ::
  "py_pattern list \<times> (json \<times> json) list \<Rightarrow> (string \<times> json) list
     \<Rightarrow> error + (py_pattern list \<times> (json \<times> json) list)" where
  "merge_step acc result =
     (if has_key result ''parse_error'' then Inr acc
      else
        bindE (iterate (dict_get result ''patterns'' (JList []))) (\<lambda>ps.
        bindE (mapE make_pattern ps) (\<lambda>pats.
        bindE (iterate (dict_get result ''custom_categories'' (JList []))) (\<lambda>cats.
        bindE (foldE add_custom_category cats (snd acc)) (\<lambda>cc.
        Inr (fst acc @ pats, cc))))))"

definition merge_pattern_results :: "(string \<times> json) list list \<Rightarrow> error + py_result" where
  "merge_pattern_results results =
     bindE (foldE merge_step results ([], [])) (\<lambda>acc.
     Inr \<lparr>py_patterns = fst acc, py_custom_categories = snd acc,
          py_total_prompts_analyzed = 0, py_sessions_analyzed = 0\<rparr>)"

section \<open>Batch review shortcuts (review_cli.py)\<close>

text \<open>
  \<^verbatim>\<open>quick_approve_all\<close> and \<^verbatim>\<open>quick_approve_high_confidence\<close> walk \<^verbatim>\<open>result.patterns\<close>
  and assign \<^verbatim>\<open>pattern.approved = True\<close> in place; the model returns the updated result.
\<close>

definition quick_approve_all :: "analysis_result \<Rightarrow> analysis_result" where
  "quick_approve_all result =
     result\<lparr>patterns :=
       map (\<lambda>pattern. if approved pattern = None then pattern\<lparr>approved := Some True\<rparr> else pattern)
         (patterns result)\<rparr>"

definition quick_approve_high_confidence :: "analysis_result \<Rightarrow> analysis_result" where
  "quick_approve_high_confidence result =
     result\<lparr>patterns :=
       map (\<lambda>pattern. if approved pattern = None \<and> confidence pattern = ''high''
                      then pattern\<lparr>approved := Some True\<rparr> else pattern)
         (patterns result)\<rparr>"

subsection \<open>Interactive review\<close>

text \<open>
  The terminal widgets are the user's answers. \<^verbatim>\<open>questionary.select(...).ask()\<close> returns the
  value of the chosen entry, or \<^verbatim>\<open>None\<close> when the user cancels; \<^verbatim>\<open>questionary.text(...).ask()\<close>
  returns the typed text, or \<^verbatim>\<open>None\<close>. An \<open>action\<close> is the answer to "What would you like to
  do?" together with the answers to the questions that follow it: the new summary for
  \<open>Edit\<close>; for \<open>Category\<close> the position chosen in the category list, the custom name
  (asked after the entry \<^verbatim>\<open>(custom)\<close>) and its description (asked after a non-empty name).
  A position past the end of the list stands for a cancelled question, since the widget
  offers the listed entries only.
  The answers of a session are a function from the number of the question to its action.
  \<^verbatim>\<open>print\<close> is not modelled.
\<close>

datatype action =
  Cancelled
  | Save
  | Accept
  | Reject
  | Edit "string option"
  | Category "nat option" "string option" "string option"
  | Skip

definition select_answer :: "string list \<Rightarrow> nat option \<Rightarrow> string option" where
  "select_answer choices sel =
     (case sel of None \<Rightarrow> None
      | Some i \<Rightarrow> if i < length choices then Some (choices ! i) else None)"

text \<open>
  The branches \<^verbatim>\<open>accept\<close>, \<^verbatim>\<open>reject\<close>, \<^verbatim>\<open>edit\<close>, \<^verbatim>\<open>category\<close> and \<^verbatim>\<open>skip\<close> of the loop body, on the
  pattern under review and \<^verbatim>\<open>result.custom_categories\<close>. An answer is used (\<^verbatim>\<open>if s:\<close>)
  when it is neither \<^verbatim>\<open>None\<close> nor empty. (\<open>Save\<close> and \<open>Cancelled\<close> leave the loop before this
  point.)
\<close>

definition review_step ::
  "string list \<Rightarrow> action \<Rightarrow> pattern \<Rightarrow> (string \<times> string) list
     \<Rightarrow> pattern \<times> (string \<times> string) list" where
  "review_step all_categories a pattern cc = (case a of
       Accept \<Rightarrow> (pattern\<lparr>approved := Some True\<rparr>, cc)
     | Reject \<Rightarrow> (pattern\<lparr>approved := Some False\<rparr>, cc)
     | Edit new_summary \<Rightarrow>
         (case new_summary of
            Some s \<Rightarrow> (if s \<noteq> [] then pattern\<lparr>summary := s\<rparr> else pattern, cc)
          | None \<Rightarrow> (pattern, cc))
     | Category sel custom_name desc \<Rightarrow>
         (let chosen = select_answer (all_categories @ [''(custom)'']) sel;
              new_cat = (if chosen = Some ''(custom)'' then custom_name else chosen);
              cc' = (if chosen = Some ''(custom)'' then
                       (case (new_cat, desc) of
                          (Some n, Some ds) \<Rightarrow> if n \<noteq> [] \<and> ds \<noteq> [] then dict_set n ds cc else cc
                        | _ \<Rightarrow> cc)
                     else cc)
          in (case new_cat of
                Some n \<Rightarrow> (if n \<noteq> [] then pattern\<lparr>category := n\<rparr> else pattern, cc')
              | None \<Rightarrow> (pattern, cc')))
     | _ \<Rightarrow> (pattern, cc))"

text \<open>
  The loop \<^verbatim>\<open>for i, pattern in enumerate(result.patterns)\<close>: a reviewed pattern is passed
  over; \<^verbatim>\<open>save\<close> or a cancelled question breaks out of the loop. \<open>reviewed_count\<close> numbers
  the questions.
\<close>

fun review_loop ::
  "(nat \<Rightarrow> action) \<Rightarrow> string list \<Rightarrow> nat \<Rightarrow> pattern list \<Rightarrow> (string \<times> string) list
     \<Rightarrow> pattern list \<times> (string \<times> string) list" where
  "review_loop answers all_categories reviewed_count [] cc = ([], cc)"
| "review_loop answers all_categories reviewed_count (pattern # rest) cc =
     (if approved pattern \<noteq> None then
        (case review_loop answers all_categories reviewed_count rest cc of
           (rest', cc') \<Rightarrow> (pattern # rest', cc'))
      else if answers reviewed_count = Cancelled \<or> answers reviewed_count = Save then
        (pattern # rest, cc)
      else
        (case review_step all_categories (answers reviewed_count) pattern cc of
           (pattern', cc1) \<Rightarrow>
             (case review_loop answers all_categories (Suc reviewed_count) rest cc1 of
                (rest', cc') \<Rightarrow> (pattern' # rest', cc'))))"

text \<open>
  \<^verbatim>\<open>review_patterns_interactive\<close> returns the result; with a \<^verbatim>\<open>state_path\<close> it also saves it
  (\<^verbatim>\<open>result.save\<close> writes \<^verbatim>\<open>to_dict()\<close> as JSON): the second component is what is written
  where. With nothing left to review it returns at once, and nothing is saved.
\<close>

definition review_patterns_interactive ::
  "(nat \<Rightarrow> action) \<Rightarrow> analysis_result \<Rightarrow> string option
     \<Rightarrow> analysis_result \<times> (string \<times> json) option" where
  "review_patterns_interactive answers result state_path =
     (let to_review = filter (\<lambda>p. approved p = None) (patterns result) in
      if length to_review = 0 then (result, None)
      else
        (let all_categories = map fst PREDEFINED_CATEGORIES @ map fst (custom_categories result) in
         case review_loop answers all_categories 0 (patterns result) (custom_categories result) of
           (ps, cc) \<Rightarrow>
             (let result' = result\<lparr>patterns := ps, custom_categories := cc\<rparr>
              in (result', map_option (\<lambda>sp. (sp, to_dict result')) state_path))))"

section \<open>Renderer (knowledge_bank.py)\<close>

text \<open>
  Both generators build a list \<^verbatim>\<open>lines\<close> and return \<^verbatim>\<open>"\n".join(lines)\<close>; with an
  \<^verbatim>\<open>output_path\<close> they also write that text to a file, which is not modelled. The three
  confidence glyphs lie outside the characters of the text model; they are constants,
  written as their UTF-8 bytes, and the renderer only copies them. \<open>title\<close> is
  \<^verbatim>\<open>str.title\<close>, a parameter.
\<close>

definition green_circle :: string where
  "green_circle = [CHR 0xF0, CHR 0x9F, CHR 0x9F, CHR 0xA2]"

definition yellow_circle :: string where
  "yellow_circle = [CHR 0xF0, CHR 0x9F, CHR 0x9F, CHR 0xA1]"

definition white_circle :: string where
  "white_circle = [CHR 0xE2, CHR 0x9A, CHR 0xAA]"

text \<open>
  The loop that groups patterns by category: \<^verbatim>\<open>if cat not in d: d[cat] = []\<close>, then
  \<^verbatim>\<open>d[cat].append(p)\<close>.
\<close>

definition group_step :: "(string \<times> pattern list) list \<Rightarrow> pattern \<Rightarrow> (string \<times> pattern list) list" where
  "group_step d p =
     (let cat = category p;
          d1 = (if \<not> has_key d cat then dict_set cat [] d else d)
      in dict_set cat (dict_get d1 cat [] @ [p]) d1)"

definition patterns_by_category :: "pattern list \<Rightarrow> (string \<times> pattern list) list" where
  "patterns_by_category ps = foldl group_step [] ps"

subsection \<open>Knowledge bank\<close>

text \<open>\<^verbatim>\<open>confidence_order.get(p.confidence, 3)\<close> and the glyph \<^verbatim>\<open>{...}.get(pattern.confidence, ...)\<close>.\<close>

definition confidence_order :: "string \<Rightarrow> nat" where
  "confidence_order c =
     (if c = ''high'' then 0 else if c = ''medium'' then 1 else if c = ''low'' then 2 else 3)"

definition confidence_emoji :: "string \<Rightarrow> string" where
  "confidence_emoji c =
     (if c = ''high'' then green_circle else if c = ''medium'' then yellow_circle
      else if c = ''low'' then white_circle else white_circle)"

definition approved_patterns :: "analysis_result \<Rightarrow> pattern list" where
  "approved_patterns result =
     filter (\<lambda>p. approved p = None \<or> approved p = Some True) (patterns result)"

text \<open>\<^verbatim>\<open>{**PREDEFINED_CATEGORIES, **result.custom_categories}\<close>.\<close>

definition all_categories_of :: "analysis_result \<Rightarrow> (string \<times> string) list" where
  "all_categories_of result =
     foldl (\<lambda>d kv. dict_set (fst kv) (snd kv) d) PREDEFINED_CATEGORIES (custom_categories result)"

definition predefined_order :: "string list" where
  "predefined_order = map fst PREDEFINED_CATEGORIES"

definition custom_cats :: "(string \<times> pattern list) list \<Rightarrow> string list" where
  "custom_cats by_category = filter (\<lambda>c. c \<notin> set predefined_order) (map fst by_category)"

definition ordered_cats :: "(string \<times> pattern list) list \<Rightarrow> string list" where
  "ordered_cats by_category =
     filter (\<lambda>c. has_key by_category c) predefined_order @ sort (custom_cats by_category)"

text \<open>The lines of one example and of one pattern.\<close>

definition example_line :: "string \<Rightarrow> string" where
  "example_line example =
     ''  - _\"'' @ (if length example > 100 then take 97 example @ ''...'' else example) @ ''\"_''"

definition pattern_lines :: "pattern \<Rightarrow> string list" where
  "pattern_lines pattern =
     [''- **'' @ summary pattern @ ''** '' @ confidence_emoji (confidence pattern)]
     @ map example_line (take 3 (examples pattern))
     @ ['''']"

text \<open>\<^verbatim>\<open>patterns.sort(key=...)\<close>: the stable sort of the category's list by confidence.\<close>

definition sorted_patterns :: "(string \<times> pattern list) list \<Rightarrow> string \<Rightarrow> pattern list" where
  "sorted_patterns by_category cat =
     sort_key (\<lambda>p. confidence_order (confidence p)) (dict_get by_category cat [])"

text \<open>The body of the loop over \<^verbatim>\<open>ordered_cats\<close>: the lines of one section.\<close>

definition section_lines ::
  "(string \<Rightarrow> string) \<Rightarrow> (string \<times> string) list \<Rightarrow> (string \<times> pattern list) list \<Rightarrow> string
     \<Rightarrow> string list" where
  "section_lines title all_categories by_category cat =
     (if dict_get by_category cat [] = [] then []
      else
        (let category_title = title (replace_underscores cat);
             category_desc = dict_get all_categories cat []
         in [''## '' @ category_title]
            @ (if category_desc \<noteq> [] then [''*'' @ category_desc @ ''*''] else [])
            @ ['''']
            @ concat (map pattern_lines (sorted_patterns by_category cat))))"

definition knowledge_bank_header :: "string \<Rightarrow> analysis_result \<Rightarrow> string list" where
  "knowledge_bank_header now result =
     [''# My Claude Patterns'',
      '''',
      ''> Auto-generated from '' @ str_int (sessions_analyzed result) @ '' sessions'',
      ''> '' @ str_int (total_prompts_analyzed result) @ '' prompts analyzed'',
      ''> Last updated: '' @ now,
      '''']"

definition knowledge_bank_legend :: "string list" where
  "knowledge_bank_legend =
     [''---'',
      '''',
      ''**Confidence:** '' @ green_circle @ '' High (3+ occurrences) | '' @ yellow_circle
        @ '' Medium (2 occurrences) | '' @ white_circle @ '' Low (inferred)'']"

text \<open>
  \<^verbatim>\<open>generate_knowledge_bank\<close>; \<open>title\<close> is \<^verbatim>\<open>str.title\<close> and \<open>now\<close> is the text of
  \<^verbatim>\<open>datetime.now().strftime('%Y-%m-%d %H:%M')\<close>.
\<close>

definition knowledge_bank_lines ::
  "(string \<Rightarrow> string) \<Rightarrow> string \<Rightarrow> analysis_result \<Rightarrow> string list" where
  "knowledge_bank_lines title now result =
     (if approved_patterns result = [] then
        knowledge_bank_header now result
        @ [''*No patterns discovered yet. Run more sessions to build your knowledge bank.*'']
      else
        (let by_category = patterns_by_category (approved_patterns result) in
         knowledge_bank_header now result
         @ concat (map (section_lines title (all_categories_of result) by_category)
                     (ordered_cats by_category))
         @ knowledge_bank_legend))"

definition generate_knowledge_bank ::
  "(string \<Rightarrow> string) \<Rightarrow> string \<Rightarrow> analysis_result \<Rightarrow> string" where
  "generate_knowledge_bank title now result = join [CHR 0x0A] (knowledge_bank_lines title now result)"

subsection \<open>Compact preference file\<close>

definition high_confidence :: "analysis_result \<Rightarrow> pattern list" where
  "high_confidence result =
     filter (\<lambda>p. (approved p = None \<or> approved p = Some True) \<and> confidence p = ''high'')
       (patterns result)"

definition claude_md_section :: "(string \<Rightarrow> string) \<Rightarrow> string \<times> pattern list \<Rightarrow> string list" where
  "claude_md_section title item =
     [''## '' @ title (replace_underscores (fst item)), '''']
     @ map (\<lambda>pattern. ''- '' @ summary pattern) (snd item)
     @ ['''']"

definition claude_md_header :: "string list" where
  "claude_md_header =
     [''# Project Preferences'',
      '''',
      ''<!-- Auto-generated from Claude Code session analysis -->'',
      '''']"

definition claude_md_lines :: "(string \<Rightarrow> string) \<Rightarrow> analysis_result \<Rightarrow> string list" where
  "claude_md_lines title result =
     (if high_confidence result = [] then
        claude_md_header @ [''*No high-confidence patterns discovered yet.*'']
      else
        claude_md_header
        @ concat (map (claude_md_section title) (patterns_by_category (high_confidence result))))"

definition generate_claude_md :: "(string \<Rightarrow> string) \<Rightarrow> analysis_result \<Rightarrow> string" where
  "generate_claude_md title result = join [CHR 0x0A] (claude_md_lines title result)"

section \<open>Notions used in the statements\<close>

text \<open>
  The pattern objects that the inner loop of \<^verbatim>\<open>merge_pattern_results\<close> visits in one
  result. A valid batch is a reply of the documented shape: \<^verbatim>\<open>patterns\<close>, when present, is a
  list of objects, and \<^verbatim>\<open>custom_categories\<close>, when present, is a list in which no object
  has a list or an object for its name.
\<close>

definition raw_patterns :: "(string \<times> json) list \<Rightarrow> json list" where
  "raw_patterns result =
     (case iterate (dict_get result ''patterns'' (JList [])) of Inr ps \<Rightarrow> ps | Inl _ \<Rightarrow> [])"

definition is_object :: "json \<Rightarrow> bool" where
  "is_object v = (case v of JDict _ \<Rightarrow> True | _ \<Rightarrow> False)"

definition name_usable :: "json \<Rightarrow> bool" where
  "name_usable cat =
     (case cat of JDict d \<Rightarrow> \<not> unhashable (dict_get d ''name'' (JStr [])) | _ \<Rightarrow> True)"

definition valid_batch :: "(string \<times> json) list \<Rightarrow> bool" where
  "valid_batch result =
     ((case dict_get result ''patterns'' (JList []) of
         JList ps \<Rightarrow> list_all is_object ps | _ \<Rightarrow> False)
      \<and> (case dict_get result ''custom_categories'' (JList []) of
         JList cats \<Rightarrow> list_all name_usable cats | _ \<Rightarrow> False))"

text \<open>
  \<open>starts_ci text' pre\<close>: the text starts with \<open>pre\<close>, whatever the case of its letters.
\<close>

definition starts_ci :: "string \<Rightarrow> string \<Rightarrow> bool" where
  "starts_ci text' pre = (map lower_ch (take (length pre) text') = map lower_ch pre)"

text \<open>
  The prompts that the loop of \<^verbatim>\<open>extract_user_prompts\<close> appends for a run of entries none of
  which raises.
\<close>

definition emitted :: "'m collaborators \<Rightarrow> json list \<Rightarrow> prompt list" where
  "emitted env entries =
     concat (map (\<lambda>entry. case process_entry env entry of Inr (Some p) \<Rightarrow> [p] | _ \<Rightarrow> []) entries)"

text \<open>
  What \<^verbatim>\<open>extract_all_prompts\<close> yields without a cap: one dict for every session with at least
  one prompt, project after project, in the order of the walk.
\<close>

definition session_yields :: "'m collaborators \<Rightarrow> string \<Rightarrow> 'm session list \<Rightarrow> 'm session_bundle list" where
  "session_yields env pname ss =
     map (session_dict env pname) (filter (\<lambda>s. extract_user_prompts env (path s) \<noteq> []) ss)"

definition yielding_sessions :: "'m collaborators \<Rightarrow> 'm project list \<Rightarrow> 'm session_bundle list" where
  "yielding_sessions env projects =
     concat (map (\<lambda>p. session_yields env (name p) (sessions p)) projects)"

text \<open>
  Between two lists of patterns, position by position: a pattern that was accepted or
  rejected keeps its \<^verbatim>\<open>approved\<close> value.
\<close>

definition approval_kept :: "pattern list \<Rightarrow> pattern list \<Rightarrow> bool" where
  "approval_kept before after =
     list_all2 (\<lambda>p p'. approved p \<noteq> None \<longrightarrow> approved p' = approved p) before after"



subsection \<open>Example inputs\<close>

text \<open>Two replies of the model that parsed, and the sentinel of one that did not.\<close>

definition example_batch_two :: "(string \<times> json) list" where
  "example_batch_two =
     [(''patterns'', JList
         [JDict [(''summary'', JStr ''Use tabs''), (''examples'', JList [JStr ''always use tabs'']),
                 (''confidence'', JStr ''high''), (''category'', JStr ''coding_style'')],
          JDict [(''summary'', JStr ''Write tests first'')]]),
      (''custom_categories'', JList
         [JDict [(''name'', JStr ''api_design''), (''description'', JStr ''API shape'')]])]"

definition example_sentinel :: "(string \<times> json) list" where
  "example_sentinel =
     [(''raw_response'', JStr ''not json''), (''parse_error'', JStr ''Expecting value'')]"

definition example_batch_one :: "(string \<times> json) list" where
  "example_batch_one =
     [(''patterns'', JList
         [JDict [(''summary'', JStr ''Keep answers short''), (''confidence'', JStr ''medium''),
                 (''category'', JStr ''api_design'')]])]"


text \<open>
  A collaborator for message contents that are plain strings; a session log whose third
  entry has no message object, and a log of one entry; a walk that finds four sessions in
  two projects, of which the second cannot be read.
\<close>

definition example_text :: "json \<Rightarrow> error + string" where
  "example_text content =
     (case content of JStr s \<Rightarrow> Inr s | _ \<Rightarrow> Inl (ExternalError ''unsupported content''))"

definition example_entry_prompt :: json where
  "example_entry_prompt =
     JDict [(''type'', JStr ''user''), (''message'', JDict [(''content'', JStr ''no, use tabs'')]),
            (''timestamp'', JStr ''2026-01-01T10:00:00Z'')]"

definition example_entry_assistant :: json where
  "example_entry_assistant =
     JDict [(''type'', JStr ''assistant''), (''message'', JDict [(''content'', JStr ''ok'')])]"

definition example_entries_before :: "json list" where
  "example_entries_before = [example_entry_prompt, example_entry_assistant]"

definition example_entry_failing :: json where
  "example_entry_failing = JDict [(''type'', JStr ''user''), (''message'', JNull)]"

definition example_entries_after :: "json list" where
  "example_entries_after =
     [JDict [(''type'', JStr ''user''), (''message'', JDict [(''content'', JStr ''no, undo that'')])]]"

definition example_log :: json where
  "example_log = JDict [(''loglines'',
     JList (example_entries_before @ example_entry_failing # example_entries_after))]"

definition example_log_short :: json where
  "example_log_short = JDict [(''loglines'', JList example_entries_after)]"

definition example_projects :: "nat project list" where
  "example_projects =
     [\<lparr>name = ''alpha'',
       sessions = [\<lparr>path = \<lparr>path_str = ''alpha/a.jsonl'', stem = ''a''\<rparr>, mtime = 1\<rparr>,
                   \<lparr>path = \<lparr>path_str = ''alpha/b.jsonl'', stem = ''b''\<rparr>, mtime = 2\<rparr>,
                   \<lparr>path = \<lparr>path_str = ''alpha/c.jsonl'', stem = ''c''\<rparr>, mtime = 3\<rparr>]\<rparr>,
      \<lparr>name = ''beta'',
       sessions = [\<lparr>path = \<lparr>path_str = ''beta/d.jsonl'', stem = ''d''\<rparr>, mtime = 4\<rparr>]\<rparr>]"

definition example_env :: "nat collaborators" where
  "example_env =
     \<lparr>parse_session_file =
        (\<lambda>p. if path_str p = ''alpha/a.jsonl'' then Inr example_log
              else if path_str p = ''alpha/c.jsonl'' \<or> path_str p = ''beta/d.jsonl''
                   then Inr example_log_short
              else Inl (ExternalError ''cannot read'')),
      extract_text_from_content = example_text,
      find_all_sessions = (\<lambda>folder include_agents. example_projects)\<rparr>"

text \<open>
  A result with reviewed and unreviewed patterns, in two predefined and two other
  categories, and the answers of a review session: reject, edit, then accept.
\<close>

definition example_result :: analysis_result where
  "example_result =
     \<lparr>patterns =
        [\<lparr>summary = ''Use tabs'', examples = [''always use tabs''], confidence = ''high'',
           category = ''zeta'', approved = None\<rparr>,
         \<lparr>summary = ''Small commits'', examples = [], confidence = ''medium'',
           category = ''workflow'', approved = Some True\<rparr>,
         \<lparr>summary = ''Write tests first'', examples = [], confidence = ''low'',
           category = ''testing'', approved = Some True\<rparr>,
         \<lparr>summary = ''Mock the database'', examples = [], confidence = ''high'',
           category = ''testing'', approved = Some False\<rparr>,
         \<lparr>summary = ''Keep tests fast'', examples = [], confidence = ''high'',
           category = ''testing'', approved = None\<rparr>,
         \<lparr>summary = ''Version the API'', examples = [], confidence = ''certain'',
           category = ''api_design'', approved = None\<rparr>,
         \<lparr>summary = ''Name the tests'', examples = [], confidence = ''unsure'',
           category = ''testing'', approved = Some True\<rparr>],
      custom_categories = [(''api_design'', ''How APIs look'')],
      total_prompts_analyzed = 12, sessions_analyzed = 3\<rparr>"

definition example_answers :: "nat \<Rightarrow> action" where
  "example_answers n =
     (if n = 0 then Reject else if n = 1 then Edit (Some ''Keep the tests fast'') else Accept)"

section \<open>Properties\<close>

subsection \<open>The error monad\<close>

lemma bindE_Inr [simp]: "bindE (Inr v) f = f v"
  by (simp add: bindE_def)

lemma bindE_Inl [simp]: "bindE (Inl e) f = Inl e"
  by (simp add: bindE_def)

lemma bindE_eq_Inr: "bindE m f = Inr y \<longleftrightarrow> (\<exists>v. m = Inr v \<and> f v = Inr y)"
  by (cases m) simp_all

lemma bindE_cong: "m = m' \<Longrightarrow> (\<And>v. m' = Inr v \<Longrightarrow> f v = g v) \<Longrightarrow> bindE m f = bindE m' g"
  by (cases m') simp_all

lemma mapE_map_inverse: "(\<And>x. x \<in> set xs \<Longrightarrow> f (g x) = Inr x) \<Longrightarrow> mapE f (map g xs) = Inr xs"
  by (induction xs) simp_all

lemma mapE_eq_Inr: "mapE f xs = Inr ys \<Longrightarrow> map f xs = map Inr ys"
  by (induction xs arbitrary: ys) (auto simp: bindE_eq_Inr)

subsection \<open>Prompt Classifier\<close>

lemma lower_ch_comma: "lower_ch c = CHR '','' \<Longrightarrow> c = CHR '',''"
  by (simp add: lower_ch_def ascii_uppercase_def ascii_lowercase_def split: if_splits)

lemma search_anchored_comma:
  assumes "starts_ci t (l @ '','')"
  shows "search (True, Cat (Lit l) (Cls comma_or_space)) t"
proof -
  from assms have m: "map lower_ch (take (Suc (length l)) t) = map lower_ch l @ '',''"
    by (simp add: starts_ci_def lower_ch_def ascii_uppercase_def ascii_lowercase_def)
  from m have "length (map lower_ch (take (Suc (length l)) t)) = length (map lower_ch l @ '','')"
    by (rule arg_cong)
  then have len: "length l < length t" by simp
  from m have "take (length l) (map lower_ch (take (Suc (length l)) t)) = map lower_ch l" by simp
  then have a: "map lower_ch (take (length l) t) = map lower_ch l"
    by (simp add: take_map min_def)
  from m have "map lower_ch (take (Suc (length l)) t) ! length l = CHR '',''"
    by (simp add: nth_append)
  with len have "lower_ch (t ! length l) = CHR '',''" by simp
  then have c: "t ! length l = CHR '',''" by (rule lower_ch_comma)
  from len have d: "drop (length l) t = t ! length l # drop (Suc (length l)) t"
    by (simp add: Cons_nth_drop_Suc)
  show ?thesis
    by (simp add: search_def a d c comma_or_space_def)
qed

lemma classify_correction_prefix:
  assumes "starts_ci t ''no,'' \<or> starts_ci t ''actually,''"
  shows "classify_prompt t = ''correction''"
proof -
  from assms have ne: "t \<noteq> []" by (auto simp: starts_ci_def)
  from assms have "search (True, Cat (Lit ''no'') (Cls comma_or_space)) t
             \<or> search (True, Cat (Lit ''actually'') (Cls comma_or_space)) t"
    using search_anchored_comma[of t "''no''"] search_anchored_comma[of t "''actually''"] by auto
  then have "list_ex (\<lambda>pattern. search pattern t) CORRECTION_PATTERNS"
    by (auto simp: CORRECTION_PATTERNS_def)
  with ne show ?thesis
    by (simp add: classify_prompt_def classify_with_def)
qed

lemma starts_ci_no:
  "starts_ci (CHR ''n'' # CHR ''o'' # CHR '','' # rest) ''no,''"
  "starts_ci (CHR ''N'' # CHR ''o'' # CHR '','' # rest) ''no,''"
  by (simp_all add: starts_ci_def lower_ch_def ascii_uppercase_def ascii_lowercase_def)

text \<open>
  C4. A text that starts with \<^verbatim>\<open>no,\<close> or \<^verbatim>\<open>actually,\<close>, in any case of the letters, is
  classified \<^verbatim>\<open>correction\<close>, whatever else it contains: the correction rules are tried
  first. The empty text is \<^verbatim>\<open>general\<close>, and it is so for any two rule lists: no rule is
  consulted.
\<close>

theorem corrections_take_priority:
  "(starts_ci t ''no,'' \<or> starts_ci t ''actually,'' \<longrightarrow> classify_prompt t = ''correction'')
   \<and> classify_prompt [] = ''general''
   \<and> classify_with correction_patterns instruction_patterns [] = ''general''"
proof (intro conjI impI)
  assume "starts_ci t ''no,'' \<or> starts_ci t ''actually,''"
  then show "classify_prompt t = ''correction''"
    by (rule classify_correction_prefix)
next
  show "classify_prompt [] = ''general''"
    by (simp add: classify_prompt_def classify_with_def)
  show "classify_with correction_patterns instruction_patterns [] = ''general''"
    by (simp add: classify_with_def)
qed

text \<open>
  A text that starts with \<^verbatim>\<open>No,\<close> and goes on with the instruction trigger \<^verbatim>\<open>always\<close> and a
  space, which the first rule of \<^verbatim>\<open>INSTRUCTION_PATTERNS\<close> finds at position 4.
\<close>

theorem corrections_take_priority_witness:
  "starts_ci ''No, always use tabs'' ''no,''
   \<and> rx_match (Cat (Lit ''always'') (Cls is_space)) (drop 4 ''No, always use tabs'') = [''use tabs'']
   \<and> classify_prompt ''No, always use tabs'' = ''correction''"
proof -
  have h: "starts_ci ''No, always use tabs'' ''no,''"
    by (rule starts_ci_no)
  have s: "rx_match (Cat (Lit ''always'') (Cls is_space)) (drop 4 ''No, always use tabs'') = [''use tabs'']"
    by (simp add: is_space_def lower_ch_def ascii_uppercase_def ascii_lowercase_def)
  from corrections_take_priority[of "''No, always use tabs''"] h
  have "classify_prompt ''No, always use tabs'' = ''correction''" by blast
  with h s show ?thesis by blast
qed

subsection \<open>Prompt Extractor\<close>

lemma process_loglines_first_failure:
  "list_all (\<lambda>x. \<not> isl (process_entry env x)) before \<Longrightarrow> process_entry env entry = Inl e \<Longrightarrow>
   process_loglines env (before @ entry # rest) acc = (acc @ emitted env before, Some e)"
proof (induction before arbitrary: acc)
  case Nil
  then show ?case by (simp add: emitted_def)
next
  case (Cons x xs)
  from Cons.prems have x: "\<not> isl (process_entry env x)" and xs: "list_all (\<lambda>x. \<not> isl (process_entry env x)) xs"
    by simp_all
  from x obtain v where v: "process_entry env x = Inr v" by (cases "process_entry env x") auto
  show ?case
  proof (cases v)
    case None
    with v Cons.IH[OF xs Cons.prems(2), of acc] show ?thesis by (simp add: emitted_def)
  next
    case (Some p)
    with v Cons.IH[OF xs Cons.prems(2), of "acc @ [p]"] show ?thesis by (simp add: emitted_def)
  qed
qed

text \<open>
  C2, as amended. \<^verbatim>\<open>extract_user_prompts\<close> returns a list whatever is raised inside its
  \<^verbatim>\<open>try\<close> block. When \<^verbatim>\<open>parse_session_file\<close> raises, or the log lines cannot be iterated, the
  list is empty. When the first entry to raise comes after the entries \<open>before\<close>, the
  list holds the prompts emitted for \<open>before\<close>.
\<close>

theorem extract_keeps_prompts_before_failure:
  "(parse_session_file env p = Inl e \<longrightarrow>
      try_block env p = ([], Some e) \<and> extract_user_prompts env p = [])
   \<and> (parse_session_file env p = Inr data
        \<and> bindE (get_attr data ''loglines'' (JList [])) iterate = Inl e \<longrightarrow>
      try_block env p = ([], Some e) \<and> extract_user_prompts env p = [])
   \<and> (parse_session_file env p = Inr data
        \<and> bindE (get_attr data ''loglines'' (JList [])) iterate = Inr (before @ entry # rest)
        \<and> list_all (\<lambda>x. \<not> isl (process_entry env x)) before
        \<and> process_entry env entry = Inl e \<longrightarrow>
      try_block env p = (emitted env before, Some e)
      \<and> extract_user_prompts env p = emitted env before)"
  using process_loglines_first_failure[of env before entry e rest "[]"]
  by (simp add: try_block_def extract_user_prompts_def)

lemmas entry_eval = process_entry_def get_attr_def dict_get_def is_tool_result_def startswith_def
  strip_def example_text_def is_space_def

lemma example_env_text: "extract_text_from_content example_env = example_text"
  by (simp add: example_env_def)

lemma example_entry_prompt_emits:
  "process_entry example_env example_entry_prompt =
      Inr (Some \<lparr>prompt_text = ''no, use tabs'', prompt_type = ''correction'',
         prompt_timestamp = JStr ''2026-01-01T10:00:00Z''\<rparr>)"
proof -
  have "classify_prompt ''no, use tabs'' = ''correction''"
    by (rule classify_correction_prefix) (simp add: starts_ci_no)
  then show ?thesis
    by (simp add: example_entry_prompt_def entry_eval example_env_text)
qed

lemma example_entry_assistant_skipped:
  "process_entry example_env example_entry_assistant = Inr None"
  by (simp add: example_entry_assistant_def entry_eval)

lemma example_entry_failing_raises:
  "process_entry example_env example_entry_failing = Inl AttributeError"
  by (simp add: example_entry_failing_def entry_eval)

lemma example_before_no_raise:
  "list_all (\<lambda>x. \<not> isl (process_entry example_env x)) example_entries_before"
  by (simp add: example_entries_before_def example_entry_prompt_emits example_entry_assistant_skipped)

lemma example_before_emitted:
  "emitted example_env example_entries_before =
       [\<lparr>prompt_text = ''no, use tabs'', prompt_type = ''correction'',
         prompt_timestamp = JStr ''2026-01-01T10:00:00Z''\<rparr>]"
  by (simp add: emitted_def example_entries_before_def example_entry_prompt_emits
      example_entry_assistant_skipped)

lemma example_log_loglines:
  "bindE (get_attr example_log ''loglines'' (JList [])) iterate =
       Inr (example_entries_before @ example_entry_failing # example_entries_after)"
  by (simp add: example_log_def get_attr_def dict_get_def iterate_def)

lemma example_parse_a:
  "parse_session_file example_env \<lparr>path_str = ''alpha/a.jsonl'', stem = ''a''\<rparr> = Inr example_log"
  by (simp add: example_env_def)

lemma example_try_block_a:
  "try_block example_env \<lparr>path_str = ''alpha/a.jsonl'', stem = ''a''\<rparr> =
     ([\<lparr>prompt_text = ''no, use tabs'', prompt_type = ''correction'',
        prompt_timestamp = JStr ''2026-01-01T10:00:00Z''\<rparr>], Some AttributeError)"
  using process_loglines_first_failure[OF example_before_no_raise example_entry_failing_raises,
      of example_entries_after "[]"]
  by (simp add: try_block_def example_parse_a example_log_loglines example_before_emitted)

text \<open>
  The amended statement at the example log, whose third entry is the first to raise, and
  at a session file that cannot be read.
\<close>

theorem extract_keeps_prompts_before_failure_witness:
  "parse_session_file example_env \<lparr>path_str = ''alpha/a.jsonl'', stem = ''a''\<rparr> = Inr example_log
   \<and> bindE (get_attr example_log ''loglines'' (JList [])) iterate =
       Inr (example_entries_before @ example_entry_failing # example_entries_after)
   \<and> list_all (\<lambda>x. \<not> isl (process_entry example_env x)) example_entries_before
   \<and> process_entry example_env example_entry_failing = Inl AttributeError
   \<and> extract_user_prompts example_env \<lparr>path_str = ''alpha/a.jsonl'', stem = ''a''\<rparr> =
       emitted example_env example_entries_before
   \<and> emitted example_env example_entries_before =
       [\<lparr>prompt_text = ''no, use tabs'', prompt_type = ''correction'',
         prompt_timestamp = JStr ''2026-01-01T10:00:00Z''\<rparr>]
   \<and> parse_session_file example_env \<lparr>path_str = ''alpha/b.jsonl'', stem = ''b''\<rparr> =
       Inl (ExternalError ''cannot read'')
   \<and> extract_user_prompts example_env \<lparr>path_str = ''alpha/b.jsonl'', stem = ''b''\<rparr> = []"
proof -
  let ?a = "\<lparr>path_str = ''alpha/a.jsonl'', stem = ''a''\<rparr>"
  let ?b = "\<lparr>path_str = ''alpha/b.jsonl'', stem = ''b''\<rparr>"
  have 6: "parse_session_file example_env ?b = Inl (ExternalError ''cannot read'')"
    by (simp add: example_env_def)
  note T = extract_keeps_prompts_before_failure
  from T[of example_env ?b "ExternalError ''cannot read''"] 6
  have 7: "extract_user_prompts example_env ?b = []" by blast
  from T[of example_env ?a AttributeError example_log example_entries_before
            example_entry_failing example_entries_after]
    example_parse_a example_log_loglines example_before_no_raise example_entry_failing_raises
  have 8: "extract_user_prompts example_env ?a = emitted example_env example_entries_before"
    by blast
  from example_parse_a example_log_loglines example_before_no_raise example_entry_failing_raises
    example_before_emitted 6 7 8
  show ?thesis by blast
qed

text \<open>
  C2 as stated fails: in the example log the third entry has \<^verbatim>\<open>"message": null\<close>, so
  \<^verbatim>\<open>message.get\<close> raises \<^verbatim>\<open>AttributeError\<close>; the prompt of the first entry is already in the
  list, and the list is returned with it.
\<close>

theorem extract_partial_counterexample:
  "try_block example_env \<lparr>path_str = ''alpha/a.jsonl'', stem = ''a''\<rparr> =
     ([\<lparr>prompt_text = ''no, use tabs'', prompt_type = ''correction'',
        prompt_timestamp = JStr ''2026-01-01T10:00:00Z''\<rparr>], Some AttributeError)
   \<and> extract_user_prompts example_env \<lparr>path_str = ''alpha/a.jsonl'', stem = ''a''\<rparr> =
     [\<lparr>prompt_text = ''no, use tabs'', prompt_type = ''correction'',
       prompt_timestamp = JStr ''2026-01-01T10:00:00Z''\<rparr>]"
  by (simp add: extract_user_prompts_def example_try_block_a)

subsection \<open>Corpus Collector\<close>

lemma session_yields_Nil: "session_yields env pname [] = []"
  by (simp add: session_yields_def)

lemma session_yields_Cons:
  "session_yields env pname (s # ss) =
     (if extract_user_prompts env (path s) = [] then session_yields env pname ss
      else session_dict env pname s # session_yields env pname ss)"
  by (simp add: session_yields_def)

lemma sessions_loop_uncapped:
  "limit = None \<or> limit = Some 0 \<Longrightarrow>
   sessions_loop env limit pname ss n =
     (session_yields env pname ss, n + length (session_yields env pname ss), False)"
  by (induction ss arbitrary: n) (auto simp: limit_reached_def session_yields_Nil session_yields_Cons)

lemma projects_loop_uncapped:
  "limit = None \<or> limit = Some 0 \<Longrightarrow>
   projects_loop env limit ps n = yielding_sessions env ps"
  by (induction ps arbitrary: n) (simp_all add: sessions_loop_uncapped yielding_sessions_def)

lemma limit_reached_capped: "l \<noteq> 0 \<Longrightarrow> limit_reached (Some l) n \<longleftrightarrow> nat l \<le> n"
  by (auto simp: limit_reached_def)

lemma sessions_loop_capped:
  assumes "l \<noteq> 0" "sessions_loop env (Some l) pname ss n = (ys, n', ret)"
  shows "ys = take (nat l - n) (session_yields env pname ss)
         \<and> n' = n + length ys \<and> (ret \<longrightarrow> nat l \<le> n')
         \<and> (\<not> ret \<longrightarrow> ys = session_yields env pname ss)"
  using assms(2)
proof (induction ss arbitrary: n ys n' ret)
  case Nil
  then show ?case by (simp add: session_yields_Nil)
next
  case (Cons s ss)
  show ?case
  proof (cases "nat l \<le> n")
    case True
    with Cons.prems assms(1) show ?thesis by (simp add: limit_reached_capped)
  next
    case False
    show ?thesis
    proof (cases "extract_user_prompts env (path s) = []")
      case True
      with False Cons.prems assms(1) have r: "sessions_loop env (Some l) pname ss n = (ys, n', ret)"
        by (simp add: limit_reached_capped)
      have e: "session_yields env pname (s # ss) = session_yields env pname ss"
        using True by (simp add: session_yields_Cons)
      show ?thesis unfolding e by (rule Cons.IH[OF r])
    next
      case ne: False
      with False Cons.prems assms(1) obtain zs where
        r: "sessions_loop env (Some l) pname ss (Suc n) = (zs, n', ret)"
        and y: "ys = session_dict env pname s # zs"
        by (auto simp: limit_reached_capped split: prod.splits)
      from False obtain k where k: "nat l - n = Suc k" "nat l - Suc n = k"
        by (cases "nat l - n") auto
      from Cons.IH[OF r] have i1: "zs = take (nat l - Suc n) (session_yields env pname ss)"
        and i2: "n' = Suc n + length zs" and i3: "ret \<longrightarrow> nat l \<le> n'"
        and i4: "\<not> ret \<longrightarrow> zs = session_yields env pname ss"
        by blast+
      have 1: "ys = take (nat l - n) (session_yields env pname (s # ss))"
        using i1 y ne k by (simp add: session_yields_Cons)
      have 2: "n' = n + length ys" using i2 y by simp
      note 3 = i3
      have 4: "\<not> ret \<longrightarrow> ys = session_yields env pname (s # ss)"
        using i4 y ne by (simp add: session_yields_Cons)
      from 1 2 3 4 show ?thesis by blast
    qed
  qed
qed

lemma projects_loop_capped:
  assumes "l \<noteq> 0"
  shows "projects_loop env (Some l) ps n = take (nat l - n) (yielding_sessions env ps)"
proof (induction ps arbitrary: n)
  case Nil
  show ?case by (simp add: yielding_sessions_def)
next
  case (Cons p ps)
  let ?A = "session_yields env (name p) (sessions p)"
  obtain ys n' ret where s: "sessions_loop env (Some l) (name p) (sessions p) n = (ys, n', ret)"
    using prod_cases3 by blast
  note c = sessions_loop_capped[OF assms s]
  have y: "yielding_sessions env (p # ps) = ?A @ yielding_sessions env ps"
    by (simp add: yielding_sessions_def)
  show ?case
  proof (cases ret)
    case True
    from c have ys: "ys = take (nat l - n) ?A" and n': "n' = n + length ys" by blast+
    from c True have "nat l \<le> n'" by blast
    with n' have "nat l - n \<le> length ys" by simp
    with ys have "nat l - n \<le> length ?A" by simp
    then have "take (nat l - n) (?A @ yielding_sessions env ps) = take (nat l - n) ?A" by simp
    with ys s True y show ?thesis by simp
  next
    case False
    from c False have ys: "ys = ?A" by blast
    from c have t: "ys = take (nat l - n) ?A" and n': "n' = n + length ys" by blast+
    from ys t have "length ?A = length (take (nat l - n) ?A)" by simp
    then have le: "length ?A \<le> nat l - n" by simp
    have "take (nat l - n) (?A @ yielding_sessions env ps) =
          ?A @ take (nat l - n - length ?A) (yielding_sessions env ps)"
      using le by simp
    moreover have "nat l - n' = nat l - n - length ?A" using n' ys by simp
    ultimately show ?thesis using s False y ys Cons.IH[of n'] by simp
  qed
qed

text \<open>
  C10. With no limit, or the limit 0, \<^verbatim>\<open>extract_all_prompts\<close> yields every session that has
  at least one prompt. With any other limit it yields the first \<open>limit\<close> of exactly these
  sessions: a session without prompts is passed over and does not count.
\<close>

theorem limit_counts_yielding_sessions:
  "extract_all_prompts env projects_folder limit include_agents =
     (case limit of
        None \<Rightarrow> yielding_sessions env (find_all_sessions env projects_folder include_agents)
      | Some l \<Rightarrow>
          if l = 0 then yielding_sessions env (find_all_sessions env projects_folder include_agents)
          else take (nat l) (yielding_sessions env (find_all_sessions env projects_folder include_agents)))"
proof (cases limit)
  case None
  then show ?thesis by (simp add: extract_all_prompts_def projects_loop_uncapped)
next
  case (Some l)
  then show ?thesis
    using projects_loop_capped[of l env _ 0]
    by (simp add: extract_all_prompts_def projects_loop_uncapped)
qed

lemma example_entries_after_emit:
  "process_loglines example_env example_entries_after [] =
     ([\<lparr>prompt_text = ''no, undo that'', prompt_type = ''correction'',
        prompt_timestamp = JStr []\<rparr>], None)"
proof -
  have "classify_prompt ''no, undo that'' = ''correction''"
    by (rule classify_correction_prefix) (simp add: starts_ci_no)
  then show ?thesis
    by (simp add: example_entries_after_def entry_eval example_env_text)
qed

lemma example_log_short_loglines:
  "bindE (get_attr example_log_short ''loglines'' (JList [])) iterate = Inr example_entries_after"
  by (simp add: example_log_short_def get_attr_def dict_get_def iterate_def)

lemma example_extract:
  "extract_user_prompts example_env \<lparr>path_str = ''alpha/a.jsonl'', stem = ''a''\<rparr> =
     [\<lparr>prompt_text = ''no, use tabs'', prompt_type = ''correction'',
       prompt_timestamp = JStr ''2026-01-01T10:00:00Z''\<rparr>]"
  "extract_user_prompts example_env \<lparr>path_str = ''alpha/b.jsonl'', stem = ''b''\<rparr> = []"
  "extract_user_prompts example_env \<lparr>path_str = ''alpha/c.jsonl'', stem = ''c''\<rparr> =
     [\<lparr>prompt_text = ''no, undo that'', prompt_type = ''correction'', prompt_timestamp = JStr []\<rparr>]"
  "extract_user_prompts example_env \<lparr>path_str = ''beta/d.jsonl'', stem = ''d''\<rparr> =
     [\<lparr>prompt_text = ''no, undo that'', prompt_type = ''correction'', prompt_timestamp = JStr []\<rparr>]"
proof -
  show "extract_user_prompts example_env \<lparr>path_str = ''alpha/a.jsonl'', stem = ''a''\<rparr> =
     [\<lparr>prompt_text = ''no, use tabs'', prompt_type = ''correction'',
       prompt_timestamp = JStr ''2026-01-01T10:00:00Z''\<rparr>]"
    by (simp add: extract_user_prompts_def example_try_block_a)
  show "extract_user_prompts example_env \<lparr>path_str = ''alpha/b.jsonl'', stem = ''b''\<rparr> = []"
    by (simp add: extract_user_prompts_def try_block_def example_env_def)
  have c: "parse_session_file example_env \<lparr>path_str = ''alpha/c.jsonl'', stem = ''c''\<rparr> = Inr example_log_short"
    by (simp add: example_env_def)
  have d: "parse_session_file example_env \<lparr>path_str = ''beta/d.jsonl'', stem = ''d''\<rparr> = Inr example_log_short"
    by (simp add: example_env_def)
  show "extract_user_prompts example_env \<lparr>path_str = ''alpha/c.jsonl'', stem = ''c''\<rparr> =
     [\<lparr>prompt_text = ''no, undo that'', prompt_type = ''correction'', prompt_timestamp = JStr []\<rparr>]"
    by (simp add: extract_user_prompts_def try_block_def c example_log_short_loglines
        example_entries_after_emit)
  show "extract_user_prompts example_env \<lparr>path_str = ''beta/d.jsonl'', stem = ''d''\<rparr> =
     [\<lparr>prompt_text = ''no, undo that'', prompt_type = ''correction'', prompt_timestamp = JStr []\<rparr>]"
    by (simp add: extract_user_prompts_def try_block_def d example_log_short_loglines
        example_entries_after_emit)
qed

lemma example_yielding:
  "map session_id (yielding_sessions example_env example_projects) = [''a'', ''c'', ''d'']"
  by (simp add: yielding_sessions_def session_yields_def example_projects_def session_dict_def
      example_extract)

text \<open>
  The example walk: session \<^verbatim>\<open>b\<close> cannot be read and yields nothing. With the limit 2 the
  sessions \<^verbatim>\<open>a\<close> and \<^verbatim>\<open>c\<close> are yielded, so \<^verbatim>\<open>b\<close> did not count; with the limit 0, or none, all
  three sessions with prompts are yielded.
\<close>

theorem limit_counts_yielding_sessions_witness:
  "map session_id (yielding_sessions example_env (find_all_sessions example_env ''root'' False)) =
     [''a'', ''c'', ''d'']
   \<and> map session_id (extract_all_prompts example_env ''root'' (Some 2) False) = [''a'', ''c'']
   \<and> map session_id (extract_all_prompts example_env ''root'' (Some 0) False) = [''a'', ''c'', ''d'']
   \<and> map session_id (extract_all_prompts example_env ''root'' None False) = [''a'', ''c'', ''d'']"
proof -
  have f: "find_all_sessions example_env ''root'' False = example_projects"
    by (simp add: example_env_def)
  show ?thesis
    using limit_counts_yielding_sessions[of example_env "''root''" "Some 2" False]
      limit_counts_yielding_sessions[of example_env "''root''" "Some 0" False]
      limit_counts_yielding_sessions[of example_env "''root''" None False]
    by (simp add: f example_yielding take_map[symmetric])
qed

subsection \<open>Result Merger\<close>

lemma merge_step_sentinel: "has_key result ''parse_error'' \<Longrightarrow> merge_step acc result = Inr acc"
  by (simp add: merge_step_def)

lemma foldE_merge_step_filter:
  "foldE merge_step results acc =
   foldE merge_step (filter (\<lambda>r. \<not> has_key r ''parse_error'') results) acc"
  by (induction results arbitrary: acc) (simp_all add: merge_step_sentinel cong: bindE_cong)

lemma merge_step_patterns:
  assumes "merge_step acc result = Inr acc'" "\<not> has_key result ''parse_error''"
  shows "map Inr (fst acc') = map Inr (fst acc) @ map make_pattern (raw_patterns result)"
  using assms
  by (auto simp: merge_step_def bindE_eq_Inr raw_patterns_def dest: mapE_eq_Inr)

lemma foldE_merge_step_patterns:
  "foldE merge_step results acc = Inr acc' \<Longrightarrow>
   map Inr (fst acc') = map Inr (fst acc) @
     concat (map (\<lambda>r. map make_pattern (raw_patterns r))
       (filter (\<lambda>r. \<not> has_key r ''parse_error'') results))"
proof (induction results arbitrary: acc)
  case Nil then show ?case by simp
next
  case (Cons r rs)
  show ?case
  proof (cases "has_key r ''parse_error''")
    case True
    with Cons show ?thesis by (simp add: merge_step_sentinel)
  next
    case False
    from Cons.prems obtain a where a: "merge_step acc r = Inr a" and f: "foldE merge_step rs a = Inr acc'"
      by (auto simp: bindE_eq_Inr)
    from Cons.IH[OF f] merge_step_patterns[OF a False] False show ?thesis by simp
  qed
qed

lemma merge_patterns:
  assumes "merge_pattern_results results = Inr res"
  shows "map Inr (py_patterns res) =
     map make_pattern (concat (map raw_patterns (filter (\<lambda>r. \<not> has_key r ''parse_error'') results)))"
proof -
  from assms obtain acc where f: "foldE merge_step results ([], []) = Inr acc"
    and r: "res = \<lparr>py_patterns = fst acc, py_custom_categories = snd acc,
          py_total_prompts_analyzed = 0, py_sessions_analyzed = 0\<rparr>"
    by (auto simp: merge_pattern_results_def bindE_eq_Inr)
  from foldE_merge_step_patterns[OF f] r show ?thesis by (simp add: map_concat comp_def)
qed

text \<open>What a pattern made from a source object holds, field by field.\<close>

lemma make_pattern_fields:
  assumes "make_pattern src = Inr pat"
  shows "get_attr src ''summary'' (JStr []) = Inr (py_summary pat)
       \<and> get_attr src ''examples'' (JList []) = Inr (py_examples pat)
       \<and> get_attr src ''confidence'' (JStr ''low'') = Inr (py_confidence pat)
       \<and> get_attr src ''category'' (JStr ''general'') = Inr (py_category pat)
       \<and> py_approved pat = JNull"
  using assms by (auto simp: make_pattern_def bindE_eq_Inr)

lemma merged_from_sources:
  assumes "merge_pattern_results results = Inr res"
  shows "list_all2 (\<lambda>pat src. make_pattern src = Inr pat) (py_patterns res)
           (concat (map raw_patterns (filter (\<lambda>r. \<not> has_key r ''parse_error'') results)))"
proof -
  from merge_patterns[OF assms]
  show ?thesis by (auto simp: list_all2_conv_all_nth list_eq_iff_nth_eq)
qed

text \<open>A valid batch is merged without a raise, whatever the accumulators.\<close>

lemma make_pattern_object: "is_object p \<Longrightarrow> \<exists>pat. make_pattern p = Inr pat"
  by (cases p) (simp_all add: is_object_def make_pattern_def get_attr_def)

lemma mapE_make_pattern_objects: "list_all is_object ps \<Longrightarrow> \<exists>pats. mapE make_pattern ps = Inr pats"
proof (induction ps)
  case Nil
  show ?case by simp
next
  case (Cons p ps)
  from Cons.prems make_pattern_object[of p] obtain pat where "make_pattern p = Inr pat" by auto
  moreover from Cons obtain pats where "mapE make_pattern ps = Inr pats" by auto
  ultimately show ?case by simp
qed

lemma add_custom_category_usable:
  "name_usable cat \<Longrightarrow> \<exists>cc'. add_custom_category cc cat = Inr cc'"
  by (cases cat) (simp_all add: name_usable_def add_custom_category_def Let_def)

lemma foldE_add_custom_category_usable:
  "list_all name_usable cats \<Longrightarrow> \<exists>cc'. foldE add_custom_category cats cc = Inr cc'"
proof (induction cats arbitrary: cc)
  case Nil
  show ?case by simp
next
  case (Cons c cs)
  from Cons.prems add_custom_category_usable[of c cc] obtain a where "add_custom_category cc c = Inr a"
    by auto
  moreover from Cons.prems have "list_all name_usable cs" by simp
  from Cons.IH[OF this, of a] obtain b where "foldE add_custom_category cs a = Inr b" by blast
  ultimately show ?case by simp
qed

lemma merge_step_valid:
  assumes "has_key result ''parse_error'' \<or> valid_batch result"
  shows "\<exists>acc'. merge_step acc result = Inr acc'"
proof (cases "has_key result ''parse_error''")
  case True
  then show ?thesis by (simp add: merge_step_sentinel)
next
  case False
  with assms have v: "valid_batch result" by simp
  from v obtain ps where ps: "dict_get result ''patterns'' (JList []) = JList ps" "list_all is_object ps"
    by (auto simp: valid_batch_def split: json.splits)
  from v obtain cats where cats: "dict_get result ''custom_categories'' (JList []) = JList cats"
    "list_all name_usable cats"
    by (auto simp: valid_batch_def split: json.splits)
  from mapE_make_pattern_objects[OF ps(2)] obtain pats where p: "mapE make_pattern ps = Inr pats" by blast
  from foldE_add_custom_category_usable[OF cats(2), of "snd acc"] obtain cc
    where c: "foldE add_custom_category cats (snd acc) = Inr cc" by blast
  from False ps(1) cats(1) p c show ?thesis by (simp add: merge_step_def iterate_def)
qed

lemma foldE_merge_step_valid:
  "list_all (\<lambda>r. has_key r ''parse_error'' \<or> valid_batch r) results \<Longrightarrow>
   \<exists>acc'. foldE merge_step results acc = Inr acc'"
proof (induction results arbitrary: acc)
  case Nil show ?case by simp
next
  case (Cons r rs)
  from Cons.prems merge_step_valid[of r acc] obtain a where "merge_step acc r = Inr a" by auto
  moreover from Cons.prems have "list_all (\<lambda>r. has_key r ''parse_error'' \<or> valid_batch r) rs" by simp
  from Cons.IH[OF this, of a] obtain b where "foldE merge_step rs a = Inr b" by blast
  ultimately show ?case by simp
qed

lemma merge_valid:
  "list_all (\<lambda>r. has_key r ''parse_error'' \<or> valid_batch r) results \<Longrightarrow>
   \<exists>res. merge_pattern_results results = Inr res"
  using foldE_merge_step_valid[of results "([], [])"]
  by (auto simp: merge_pattern_results_def)

text \<open>
  C5. A result that carries the key \<^verbatim>\<open>parse_error\<close> contributes nothing: merging a list of
  results is merging the list without them (the same patterns, the same custom categories,
  the same raise). When the merge returns, its patterns are, one for one and in order, those
  of the pattern objects of the remaining results, batch after batch: each holds the four
  fields of its source object, or the default of a missing one, and \<^verbatim>\<open>approved\<close> unset. The
  merge returns when every result without the key is a valid batch. In particular a valid
  batch of two patterns, a sentinel and a valid batch of one pattern give three patterns,
  those of the first batch and then the one of the second.
\<close>

theorem merge_skips_error_sentinels:
  "merge_pattern_results results =
     merge_pattern_results (filter (\<lambda>r. \<not> has_key r ''parse_error'') results)
   \<and> (merge_pattern_results results = Inr res \<longrightarrow>
        list_all2
          (\<lambda>pat src.
             get_attr src ''summary'' (JStr []) = Inr (py_summary pat)
             \<and> get_attr src ''examples'' (JList []) = Inr (py_examples pat)
             \<and> get_attr src ''confidence'' (JStr ''low'') = Inr (py_confidence pat)
             \<and> get_attr src ''category'' (JStr ''general'') = Inr (py_category pat)
             \<and> py_approved pat = JNull)
          (py_patterns res)
          (concat (map raw_patterns (filter (\<lambda>r. \<not> has_key r ''parse_error'') results))))
   \<and> (list_all (\<lambda>r. has_key r ''parse_error'' \<or> valid_batch r) results \<longrightarrow>
        (\<exists>res'. merge_pattern_results results = Inr res'))
   \<and> (valid_batch a \<and> \<not> has_key a ''parse_error'' \<and> length (raw_patterns a) = 2
        \<and> has_key e ''parse_error''
        \<and> valid_batch b \<and> \<not> has_key b ''parse_error'' \<and> length (raw_patterns b) = 1 \<longrightarrow>
        (\<exists>res'. merge_pattern_results [a, e, b] = Inr res' \<and> length (py_patterns res') = 3
            \<and> list_all2 (\<lambda>pat src. get_attr src ''summary'' (JStr []) = Inr (py_summary pat))
                 (py_patterns res') (raw_patterns a @ raw_patterns b)))"
proof (intro conjI impI)
  show "merge_pattern_results results =
     merge_pattern_results (filter (\<lambda>r. \<not> has_key r ''parse_error'') results)"
    using foldE_merge_step_filter[of results "([], [])"] by (simp add: merge_pattern_results_def)
next
  assume "merge_pattern_results results = Inr res"
  from merged_from_sources[OF this]
  show "list_all2
          (\<lambda>pat src.
             get_attr src ''summary'' (JStr []) = Inr (py_summary pat)
             \<and> get_attr src ''examples'' (JList []) = Inr (py_examples pat)
             \<and> get_attr src ''confidence'' (JStr ''low'') = Inr (py_confidence pat)
             \<and> get_attr src ''category'' (JStr ''general'') = Inr (py_category pat)
             \<and> py_approved pat = JNull)
          (py_patterns res)
          (concat (map raw_patterns (filter (\<lambda>r. \<not> has_key r ''parse_error'') results)))"
    by (rule list_all2_mono) (rule make_pattern_fields)
next
  assume "list_all (\<lambda>r. has_key r ''parse_error'' \<or> valid_batch r) results"
  then show "\<exists>res'. merge_pattern_results results = Inr res'" by (rule merge_valid)
next
  assume h: "valid_batch a \<and> \<not> has_key a ''parse_error'' \<and> length (raw_patterns a) = 2
        \<and> has_key e ''parse_error''
        \<and> valid_batch b \<and> \<not> has_key b ''parse_error'' \<and> length (raw_patterns b) = 1"
  then have "list_all (\<lambda>r. has_key r ''parse_error'' \<or> valid_batch r) [a, e, b]" by simp
  from merge_valid[OF this] obtain r where r: "merge_pattern_results [a, e, b] = Inr r" by blast
  from merged_from_sources[OF r] h
  have l: "list_all2 (\<lambda>pat src. make_pattern src = Inr pat) (py_patterns r) (raw_patterns a @ raw_patterns b)"
    by simp
  then have "length (py_patterns r) = length (raw_patterns a @ raw_patterns b)"
    by (rule list_all2_lengthD)
  with h have n: "length (py_patterns r) = 3" by simp
  from l have "list_all2 (\<lambda>pat src. get_attr src ''summary'' (JStr []) = Inr (py_summary pat))
                 (py_patterns r) (raw_patterns a @ raw_patterns b)"
    by (rule list_all2_mono) (simp add: make_pattern_fields)
  with r n show "\<exists>res'. merge_pattern_results [a, e, b] = Inr res' \<and> length (py_patterns res') = 3
            \<and> list_all2 (\<lambda>pat src. get_attr src ''summary'' (JStr []) = Inr (py_summary pat))
                 (py_patterns res') (raw_patterns a @ raw_patterns b)"
    by blast
qed

lemmas merge_eval = merge_pattern_results_def merge_step_def has_key_def dict_get_def iterate_def
  make_pattern_def get_attr_def add_custom_category_def truthy_def unhashable_def key_norm_def
  raw_patterns_def valid_batch_def is_object_def name_usable_def Let_def

lemma example_merge:
  "merge_pattern_results [example_batch_two, example_sentinel, example_batch_one] =
     Inr \<lparr>py_patterns =
            [\<lparr>py_summary = JStr ''Use tabs'', py_examples = JList [JStr ''always use tabs''],
               py_confidence = JStr ''high'', py_category = JStr ''coding_style'',
               py_approved = JNull\<rparr>,
             \<lparr>py_summary = JStr ''Write tests first'', py_examples = JList [],
               py_confidence = JStr ''low'', py_category = JStr ''general'', py_approved = JNull\<rparr>,
             \<lparr>py_summary = JStr ''Keep answers short'', py_examples = JList [],
               py_confidence = JStr ''medium'', py_category = JStr ''api_design'',
               py_approved = JNull\<rparr>],
          py_custom_categories = [(JStr ''api_design'', JStr ''API shape'')],
          py_total_prompts_analyzed = 0, py_sessions_analyzed = 0\<rparr>"
  by (simp add: merge_eval example_batch_two_def example_sentinel_def example_batch_one_def)

text \<open>
  The two example batches around the example sentinel: three patterns, in the order of the
  batches, and the custom category of the second batch alone.
\<close>

theorem merge_skips_error_sentinels_witness:
  "valid_batch example_batch_two \<and> \<not> has_key example_batch_two ''parse_error''
   \<and> length (raw_patterns example_batch_two) = 2
   \<and> has_key example_sentinel ''parse_error''
   \<and> valid_batch example_batch_one \<and> \<not> has_key example_batch_one ''parse_error''
   \<and> length (raw_patterns example_batch_one) = 1
   \<and> (\<exists>res'. merge_pattern_results [example_batch_two, example_sentinel, example_batch_one] = Inr res'
          \<and> length (py_patterns res') = 3
          \<and> list_all2 (\<lambda>pat src. get_attr src ''summary'' (JStr []) = Inr (py_summary pat))
               (py_patterns res') (raw_patterns example_batch_two @ raw_patterns example_batch_one))
   \<and> merge_pattern_results [example_batch_two, example_sentinel, example_batch_one] =
     Inr \<lparr>py_patterns =
            [\<lparr>py_summary = JStr ''Use tabs'', py_examples = JList [JStr ''always use tabs''],
               py_confidence = JStr ''high'', py_category = JStr ''coding_style'',
               py_approved = JNull\<rparr>,
             \<lparr>py_summary = JStr ''Write tests first'', py_examples = JList [],
               py_confidence = JStr ''low'', py_category = JStr ''general'', py_approved = JNull\<rparr>,
             \<lparr>py_summary = JStr ''Keep answers short'', py_examples = JList [],
               py_confidence = JStr ''medium'', py_category = JStr ''api_design'',
               py_approved = JNull\<rparr>],
          py_custom_categories = [(JStr ''api_design'', JStr ''API shape'')],
          py_total_prompts_analyzed = 0, py_sessions_analyzed = 0\<rparr>"
proof -
  have pre: "valid_batch example_batch_two \<and> \<not> has_key example_batch_two ''parse_error''
        \<and> length (raw_patterns example_batch_two) = 2
        \<and> has_key example_sentinel ''parse_error''
        \<and> valid_batch example_batch_one \<and> \<not> has_key example_batch_one ''parse_error''
        \<and> length (raw_patterns example_batch_one) = 1"
    by (simp add: merge_eval example_batch_two_def example_sentinel_def example_batch_one_def)
  note T = merge_skips_error_sentinels
    [of "[example_batch_two, example_sentinel, example_batch_one]" _
        example_batch_two example_sentinel example_batch_one]
  have "\<exists>res'. merge_pattern_results [example_batch_two, example_sentinel, example_batch_one] = Inr res'
          \<and> length (py_patterns res') = 3
          \<and> list_all2 (\<lambda>pat src. get_attr src ''summary'' (JStr []) = Inr (py_summary pat))
               (py_patterns res') (raw_patterns example_batch_two @ raw_patterns example_batch_one)"
    by (rule mp[OF T[THEN conjunct2, THEN conjunct2, THEN conjunct2] pre])
  with pre example_merge show ?thesis by (intro conjI) (elim conjE, assumption)+
qed





lemma example_merge_typed:
  "typed_result \<lparr>py_patterns =
            [\<lparr>py_summary = JStr ''Use tabs'', py_examples = JList [JStr ''always use tabs''],
               py_confidence = JStr ''high'', py_category = JStr ''coding_style'',
               py_approved = JNull\<rparr>],
          py_custom_categories = [(JStr ''api_design'', JStr ''API shape'')],
          py_total_prompts_analyzed = 0, py_sessions_analyzed = 0\<rparr> =
     Some \<lparr>patterns = [\<lparr>summary = ''Use tabs'', examples = [''always use tabs''],
                 confidence = ''high'', category = ''coding_style'', approved = None\<rparr>],
           custom_categories = [(''api_design'', ''API shape'')],
           total_prompts_analyzed = 0, sessions_analyzed = 0\<rparr>"
  by (simp add: typed_result_def typed_pattern_def option_of_def as_str_def as_str_list_def
      as_approved_def)

subsection \<open>Serialization round trip\<close>

lemma from_dict_pattern_to_dict: "from_dict_pattern (to_dict_pattern p) = Inr p"
proof -
  have ex: "as_str_list (JList (map JStr (examples p))) = Inr (examples p)"
    by (simp add: as_str_list_def mapE_map_inverse as_str_def)
  have ap: "as_approved (case approved p of None \<Rightarrow> JNull | Some b \<Rightarrow> JBool b) = Inr (approved p)"
    by (cases "approved p") (simp_all add: as_approved_def)
  show ?thesis
    by (simp add: from_dict_pattern_def to_dict_pattern_def pattern_fields_def pattern_required_def
        has_key_def dict_get_def as_str_def ex ap)
qed

lemma as_str_dict_inverse: "as_str_dict (JDict (map (\<lambda>kv. (fst kv, JStr (snd kv))) cc)) = Inr cc"
proof -
  have "mapE (\<lambda>kv. bindE (as_str (snd kv)) (\<lambda>s. Inr (fst kv, s)))
          (map (\<lambda>kv. (fst kv, JStr (snd kv))) cc) = Inr cc"
    by (rule mapE_map_inverse) (simp add: as_str_def)
  then show ?thesis by (simp add: as_str_dict_def)
qed

lemma from_dict_to_dict: "from_dict (to_dict r) = Inr r"
  by (simp add: from_dict_def to_dict_def get_attr_def dict_get_def iterate_def
      mapE_map_inverse from_dict_pattern_to_dict as_str_dict_inverse as_int_def)

text \<open>
  C6. Deserializing the serialized form of a result does not raise, and serializing what
  it returns gives the same serialized form again; the \<^verbatim>\<open>approved\<close> value of every pattern
  is the one it had.
\<close>

theorem serialization_round_trip:
  "\<exists>r'. from_dict (to_dict r) = Inr r' \<and> to_dict r' = to_dict r
      \<and> map approved (patterns r') = map approved (patterns r)"
  by (simp add: from_dict_to_dict)

subsection \<open>Review Engine\<close>

text \<open>
  C8. Applying \<^verbatim>\<open>quick_approve_all\<close> twice gives the same result as applying it once, and
  after one application no pattern is left unset, so the second application has nothing
  to change.
\<close>

theorem quick_approve_all_idempotent:
  "quick_approve_all (quick_approve_all result) = quick_approve_all result
   \<and> list_all (\<lambda>p. approved p \<noteq> None) (patterns (quick_approve_all result))"
  by (auto simp: quick_approve_all_def list_all_iff)

lemma review_loop_kept:
  "review_loop answers cats n ps cc = (ps', cc') \<Longrightarrow> approval_kept ps ps'"
proof (induction answers cats n ps cc arbitrary: ps' cc' rule: review_loop.induct)
  case (1 answers cats n cc)
  then show ?case by (simp add: approval_kept_def)
next
  case (2 answers cats n pattern rest cc)
  show ?case
  proof (cases "approved pattern \<noteq> None")
    case True
    with "2.prems" obtain r' where r: "review_loop answers cats n rest cc = (r', cc')" and p: "ps' = pattern # r'"
      by (auto split: prod.splits)
    from "2.IH"(1)[OF True r] p show ?thesis by (simp add: approval_kept_def)
  next
    case False
    show ?thesis
    proof (cases "answers n = Cancelled \<or> answers n = Save")
      case True
      with False "2.prems" have "ps' = pattern # rest" by auto
      then show ?thesis using False by (simp add: approval_kept_def list_all2_same)
    next
      case stop: False
      obtain p1 cc1 where s: "review_step cats (answers n) pattern cc = (p1, cc1)" by fastforce
      with False stop "2.prems" obtain r' where r: "review_loop answers cats (Suc n) rest cc1 = (r', cc')"
        and p: "ps' = p1 # r'"
        by (auto split: prod.splits)
      from "2.IH"(2)[OF _ stop s[symmetric] r] False have "approval_kept rest r'" by simp
      with p False show ?thesis by (simp add: approval_kept_def)
    qed
  qed
qed

text \<open>
  C7. After \<^verbatim>\<open>quick_approve_all\<close>, after \<^verbatim>\<open>quick_approve_high_confidence\<close> and after an
  interactive review with any answers, the result has as many patterns as before, and a
  pattern whose \<^verbatim>\<open>approved\<close> was true or false has the same value: no decision returns to
  unset.
\<close>

theorem approval_never_returns_to_unset:
  "approval_kept (patterns result) (patterns (quick_approve_all result))
   \<and> approval_kept (patterns result) (patterns (quick_approve_high_confidence result))
   \<and> approval_kept (patterns result)
        (patterns (fst (review_patterns_interactive answers result state_path)))"
proof (intro conjI)
  show "approval_kept (patterns result) (patterns (quick_approve_all result))"
    by (simp add: approval_kept_def quick_approve_all_def list_all2_map2 list_all2_same)
  show "approval_kept (patterns result) (patterns (quick_approve_high_confidence result))"
    by (simp add: approval_kept_def quick_approve_high_confidence_def list_all2_map2 list_all2_same)
  show "approval_kept (patterns result)
        (patterns (fst (review_patterns_interactive answers result state_path)))"
  proof (cases "filter (\<lambda>p. approved p = None) (patterns result) = []")
    case True
    then show ?thesis
      by (simp add: review_patterns_interactive_def approval_kept_def list_all2_same)
  next
    case False
    obtain ps cc where l: "review_loop answers
        (map fst PREDEFINED_CATEGORIES @ map fst (custom_categories result)) 0
        (patterns result) (custom_categories result) = (ps, cc)" by fastforce
    from review_loop_kept[OF l] False l show ?thesis
      by (simp add: review_patterns_interactive_def Let_def)
  qed
qed

text \<open>
  The example result under the three operations, the review answering reject, edit and
  accept: the rejected fourth pattern and the accepted ones keep their value each time.
\<close>

theorem approval_never_returns_to_unset_witness:
  "approval_kept (patterns example_result) (patterns (quick_approve_all example_result))
   \<and> approval_kept (patterns example_result) (patterns (quick_approve_high_confidence example_result))
   \<and> approval_kept (patterns example_result)
        (patterns (fst (review_patterns_interactive example_answers example_result None)))
   \<and> map approved (patterns example_result) =
        [None, Some True, Some True, Some False, None, None, Some True]
   \<and> map approved (patterns (quick_approve_all example_result)) =
        [Some True, Some True, Some True, Some False, Some True, Some True, Some True]
   \<and> map approved (patterns (quick_approve_high_confidence example_result)) =
        [Some True, Some True, Some True, Some False, Some True, None, Some True]
   \<and> map approved (patterns (fst (review_patterns_interactive example_answers example_result None))) =
        [Some False, Some True, Some True, Some False, None, Some True, Some True]"
proof -
  have 1: "map approved (patterns example_result) =
        [None, Some True, Some True, Some False, None, None, Some True]"
    by (simp add: example_result_def)
  have 2: "map approved (patterns (quick_approve_all example_result)) =
        [Some True, Some True, Some True, Some False, Some True, Some True, Some True]"
    by (simp add: example_result_def quick_approve_all_def)
  have 3: "map approved (patterns (quick_approve_high_confidence example_result)) =
        [Some True, Some True, Some True, Some False, Some True, None, Some True]"
    by (simp add: example_result_def quick_approve_high_confidence_def)
  have 4: "map approved (patterns (fst (review_patterns_interactive example_answers example_result None))) =
        [Some False, Some True, Some True, Some False, None, Some True, Some True]"
    by (simp add: example_result_def review_patterns_interactive_def review_step_def
        example_answers_def Let_def)
  from approval_never_returns_to_unset[of example_result example_answers None] 1 2 3 4
  show ?thesis by blast
qed

subsection \<open>Renderer\<close>

lemma has_key_iff: "has_key d k \<longleftrightarrow> k \<in> set (map fst d)"
  by (simp add: has_key_def map_of_eq_None_iff)

lemma dict_get_absent: "\<not> has_key d k \<Longrightarrow> dict_get d k dflt = dflt"
  by (simp add: has_key_def dict_get_def)

lemma map_of_dict_set: "map_of (dict_set k v d) = (map_of d)(k \<mapsto> v)"
  by (induction d) (auto simp: fun_eq_iff)

lemma keys_dict_set:
  "map fst (dict_set k v d) = (if k \<in> set (map fst d) then map fst d else map fst d @ [k])"
proof (induction d)
  case Nil
  show ?case by simp
next
  case (Cons kv d)
  obtain k' v' where kv: "kv = (k', v')" by (cases kv)
  show ?case
  proof (cases "k' = k")
    case True
    with kv show ?thesis by simp
  next
    case False
    with kv Cons show ?thesis by simp
  qed
qed

lemma set_keys_dict_set: "set (map fst (dict_set k v d)) = insert k (set (map fst d))"
  by (auto simp: keys_dict_set)

lemma dict_get_dict_set: "dict_get (dict_set k v d) c dflt = (if c = k then v else dict_get d c dflt)"
  by (simp add: dict_get_def map_of_dict_set)

lemma keys_group_step:
  "map fst (group_step d p) =
     (if category p \<in> set (map fst d) then map fst d else map fst d @ [category p])"
proof (cases "has_key d (category p)")
  case True
  then show ?thesis by (simp add: group_step_def Let_def keys_dict_set has_key_iff)
next
  case False
  then have n: "category p \<notin> set (map fst d)" by (simp add: has_key_iff)
  have "map fst (dict_set (category p) [] d) = map fst d @ [category p]"
    using n by (simp add: keys_dict_set)
  with False n show ?thesis by (simp add: group_step_def Let_def keys_dict_set)
qed

lemma dict_get_group_step:
  "dict_get (group_step d p) c [] =
     (if c = category p then dict_get d c [] @ [p] else dict_get d c [])"
  by (simp add: group_step_def Let_def dict_get_dict_set dict_get_absent)

lemma patterns_by_category_snoc:
  "patterns_by_category (ps @ [p]) = group_step (patterns_by_category ps) p"
  by (simp add: patterns_by_category_def)

lemma by_category_keys:
  "distinct (map fst (patterns_by_category ps))
   \<and> set (map fst (patterns_by_category ps)) = category ` set ps"
proof (induction ps rule: rev_induct)
  case Nil
  show ?case by (simp add: patterns_by_category_def)
next
  case (snoc p ps)
  then show ?case by (auto simp: patterns_by_category_snoc keys_group_step)
qed

lemma by_category_get:
  "dict_get (patterns_by_category ps) c [] = filter (\<lambda>p. category p = c) ps"
proof (induction ps rule: rev_induct)
  case Nil
  show ?case by (simp add: patterns_by_category_def dict_get_def)
next
  case (snoc p ps)
  then show ?case by (auto simp: patterns_by_category_snoc dict_get_group_step)
qed

lemma distinct_keys_snd:
  "distinct (map fst d) \<Longrightarrow> map snd d = map (\<lambda>c. dict_get d c dflt) (map fst d)"
proof (induction d)
  case Nil
  show ?case by simp
next
  case (Cons kv d)
  obtain k v where kv: "kv = (k, v)" by (cases kv)
  from Cons.prems kv have k: "k \<notin> set (map fst d)" and d: "distinct (map fst d)" by simp_all
  have "map (\<lambda>c. dict_get (kv # d) c dflt) (map fst d) = map (\<lambda>c. dict_get d c dflt) (map fst d)"
  proof (rule map_cong[OF refl])
    fix c assume "c \<in> set (map fst d)"
    with k have "c \<noteq> k" by blast
    then show "dict_get (kv # d) c dflt = dict_get d c dflt" by (simp add: dict_get_def kv)
  qed
  with Cons.IH[OF d] kv show ?case by (simp add: dict_get_def)
qed

lemma by_category_groups:
  "map snd (patterns_by_category ps) =
     map (\<lambda>c. filter (\<lambda>p. category p = c) ps) (map fst (patterns_by_category ps))"
  using distinct_keys_snd[of "patterns_by_category ps" "[]"] by_category_keys[of ps]
  by (simp add: by_category_get)

lemma mset_concat_none:
  "k \<notin> set ks \<Longrightarrow> map (\<lambda>c. if k = c then x # f c else f c) ks = map f ks"
  by (induction ks) auto

lemma mset_concat_one:
  "distinct ks \<Longrightarrow> k \<in> set ks \<Longrightarrow>
   mset (concat (map (\<lambda>c. if k = c then x # f c else f c) ks)) = add_mset x (mset (concat (map f ks)))"
  by (induction ks) (auto simp: mset_concat_none)

lemma mset_partition_by_key:
  "distinct ks \<Longrightarrow> g ` set ps \<subseteq> set ks \<Longrightarrow>
   mset (concat (map (\<lambda>c. filter (\<lambda>p. g p = c) ps) ks)) = mset ps"
proof (induction ps)
  case Nil
  show ?case by (induction ks) simp_all
next
  case (Cons p ps)
  have e: "(\<lambda>c. filter (\<lambda>q. g q = c) (p # ps)) =
        (\<lambda>c. if g p = c then p # filter (\<lambda>q. g q = c) ps else filter (\<lambda>q. g q = c) ps)"
    by (auto simp: fun_eq_iff)
  from Cons.prems have "g p \<in> set ks" by simp
  from mset_concat_one[OF Cons.prems(1) this, of p "\<lambda>c. filter (\<lambda>q. g q = c) ps"] Cons
  show ?case unfolding e by simp
qed

lemma mset_by_category: "mset (concat (map snd (patterns_by_category ps))) = mset ps"
  using mset_partition_by_key[of "map fst (patterns_by_category ps)" category ps] by_category_keys[of ps]
  by (simp add: by_category_groups)

lemmas text_eval = ascii_title_def replace_underscores_def is_upper_def is_lower_def lower_ch_def
  upper_ch_def ascii_uppercase_def ascii_lowercase_def

lemmas group_eval = patterns_by_category_def group_step_def has_key_def dict_get_def Let_def

text \<open>
  C1. For the result whose only pattern has confidence \<^verbatim>\<open>high\<close> and has not been reviewed
  (\<^verbatim>\<open>approved\<close> unset), the compact preference file lists that pattern, whatever
  \<^verbatim>\<open>str.title\<close> does; with the case mapping of the letters A to Z the file is the text
  below. The selection that the comment above the filter of \<^verbatim>\<open>generate_claude_md\<close> names,
  the approved patterns of high confidence, is empty on this result.
\<close>

theorem claude_md_renders_unreviewed:
  "claude_md_lines title
     \<lparr>patterns = [\<lparr>summary = ''Use tabs'', examples = [], confidence = ''high'',
                    category = ''coding_style'', approved = None\<rparr>],
      custom_categories = [], total_prompts_analyzed = 1, sessions_analyzed = 1\<rparr> =
     [''# Project Preferences'', [],
      ''<!-- Auto-generated from Claude Code session analysis -->'', [],
      ''## '' @ title ''coding style'', [], ''- Use tabs'', []]
   \<and> generate_claude_md ascii_title
     \<lparr>patterns = [\<lparr>summary = ''Use tabs'', examples = [], confidence = ''high'',
                    category = ''coding_style'', approved = None\<rparr>],
      custom_categories = [], total_prompts_analyzed = 1, sessions_analyzed = 1\<rparr> =
     ''# Project Preferences\<newline>\<newline><!-- Auto-generated from Claude Code session analysis -->\<newline>\<newline>## Coding Style\<newline>\<newline>- Use tabs\<newline>''
   \<and> filter (\<lambda>p. approved p = Some True \<and> confidence p = ''high'')
        [\<lparr>summary = ''Use tabs'', examples = [], confidence = ''high'',
           category = ''coding_style'', approved = None\<rparr>] = []"
  by (simp add: generate_claude_md_def claude_md_lines_def claude_md_header_def high_confidence_def
      claude_md_section_def group_eval text_eval)






















end
